theory Spec2Isabelle
  imports Complex_Main "HOL-Library.Log_Nat"
begin

section \<open>Data model of the swap page\<close>

text \<open>
  Addresses, symbols and amounts typed by the user are JavaScript strings; they are
  modelled as \<open>string\<close>, one element for each code unit (the strings of interest
  are ASCII), compared with \<open>=\<close> where the source uses \<open>===\<close> (exact,
  case-sensitive comparison). Base-unit amounts are \<open>bigint\<close> values that are
  never negative here (\<open>uint\<close> on the contract side) and are modelled as \<open>nat\<close>;
  every subtraction of the source is guarded by a comparison, which the model keeps.
\<close>

type_synonym address = string

text \<open>The object literal \<open>newToken\<close> of \<open>handleImportToken\<close> lists the fields of a token.\<close>

record Token =
  address :: address
  name :: string
  symbol :: string
  decimals :: nat
  logoURI :: string
  verified :: bool
  chainId :: int

text \<open>
  The \<open>useState\<close> cells of the \<open>Swap\<close> component, in the order of their declaration.
  \<open>slippage\<close> is a JavaScript number; it is kept here as the rational value of that
  double.
\<close>

record SwapState =
  fromToken :: "Token option"
  toToken :: "Token option"
  fromAmount :: string
  toAmount :: string
  showFromSelector :: bool
  showToSelector :: bool
  showSettings :: bool
  tokens :: "Token list"
  isSwapping :: bool
  isLoadingQuote :: bool
  slippage :: rat
  deadline :: nat
  recipientAddress :: string
  priceImpact :: "rat option"
  quoteRefreshInterval :: nat
  routingPath :: "address list"
  showTransactionHistory :: bool
  isPriceImpactCollapsed :: bool

text \<open>The token list of the ARC testnet, chain 5042002.\<close>

definition usdcToken :: Token where
  "usdcToken = \<lparr>address = ''0x0000000000000000000000000000000000000000'', name = ''USDC'',
     symbol = ''USDC'', decimals = 18, logoURI = ''/img/usdc.webp'', verified = True,
     chainId = 5042002\<rparr>"

definition wusdcToken :: Token where
  "wusdcToken = \<lparr>address = ''0xDe5DB9049a8dd344dC1B7Bbb098f9da60930A6dA'',
     name = ''Wrapped USDC'', symbol = ''wUSDC'', decimals = 18,
     logoURI = ''/img/logos/wusdc.png'', verified = True, chainId = 5042002\<rparr>"

definition achsToken :: Token where
  "achsToken = \<lparr>address = ''0x45Bb5425f293bdd209c894364C462421FF5FfA48'',
     name = ''Achswap Token'', symbol = ''ACHS'', decimals = 18,
     logoURI = ''/img/logos/achs-token.png'', verified = True, chainId = 5042002\<rparr>"

definition arcTestnetTokens :: "Token list" where
  "arcTestnetTokens = [usdcToken, wusdcToken, achsToken]"

subsection \<open>Flipping the swap direction\<close>

text \<open>
  \<open>handleSwapTokens\<close> calls four state setters with values read from the render's
  closure, so every right-hand side refers to the state before the call.
\<close>

definition handleSwapTokens :: "SwapState \<Rightarrow> SwapState" where
  "handleSwapTokens s =
     (let temp = fromToken s in
      s\<lparr>fromToken := toToken s, toToken := temp,
        fromAmount := toAmount s, toAmount := fromAmount s\<rparr>)"

subsection \<open>Transaction history\<close>

text \<open>
  The record written by \<open>saveTransaction\<close>. \<open>timestamp\<close> is \<open>Date.now()\<close>, an input
  of the model.
\<close>

record PendingTransaction =
  tx_id :: string
  tx_fromToken :: Token
  tx_toToken :: Token
  tx_fromAmount :: string
  tx_toAmount :: string
  tx_timestamp :: nat
  tx_chainId :: int

text \<open>
  \<open>localStorage\<close> holds one history per chain under the key \<open>transactions_<chainId>\<close>.
  The store is modelled as a map from the chain id to the stored list; serialising with
  \<open>JSON.stringify\<close> and reading back with \<open>JSON.parse\<close> is taken as the identity on
  lists of records. A missing key reads as the empty list.
\<close>

type_synonym storage = "int \<rightharpoonup> PendingTransaction list"

definition mkTransaction ::
  "int \<Rightarrow> nat \<Rightarrow> Token \<Rightarrow> Token \<Rightarrow> string \<Rightarrow> string \<Rightarrow> string \<Rightarrow> PendingTransaction" where
  "mkTransaction cid now from to fromAmt toAmt txHash =
     \<lparr>tx_id = txHash, tx_fromToken = from, tx_toToken = to, tx_fromAmount = fromAmt,
      tx_toAmount = toAmt, tx_timestamp = now, tx_chainId = cid\<rparr>"

text \<open>\<open>unshift\<close> puts the record in front; \<open>pop\<close> removes the last element.\<close>

definition pushHistory :: "PendingTransaction \<Rightarrow> PendingTransaction list \<Rightarrow> PendingTransaction list" where
  "pushHistory t existing =
     (let transactions = t # existing in
      if length transactions > 50 then butlast transactions else transactions)"

definition saveTransaction ::
  "int \<Rightarrow> nat \<Rightarrow> storage \<Rightarrow> Token \<Rightarrow> Token \<Rightarrow> string \<Rightarrow> string \<Rightarrow> string \<Rightarrow> storage" where
  "saveTransaction cid now store from to fromAmt toAmt txHash =
     (let transaction = mkTransaction cid now from to fromAmt toAmt txHash;
          transactions = (case store cid of None \<Rightarrow> [] | Some ts \<Rightarrow> ts)
      in store(cid \<mapsto> pushHistory transaction transactions))"

definition history :: "storage \<Rightarrow> int \<Rightarrow> PendingTransaction list" where
  "history store cid = (case store cid of None \<Rightarrow> [] | Some ts \<Rightarrow> ts)"

subsection \<open>Errors\<close>

text \<open>
  Every \<open>throw\<close> of the modelled code and every rejected call of a collaborator is a
  value of this type:
  \<^item> \<open>NoContractsConfigured c\<close>: \<open>No contracts configured for chain ID c\<close>;
  \<^item> \<open>WrappedTokenNotFound sym\<close>: \<open>sym token not found\<close>;
  \<^item> \<open>CallFailed reason\<close>: an error thrown by a contract or RPC call;
  \<^item> \<open>NoRouteFound wrappedSym nativeSym\<close>: \<open>No liquidity pool exists for this token
    pair. Try using wrappedSym instead of nativeSym.\<close>;
  \<^item> \<open>UndefinedAmount\<close>: the \<open>TypeError\<close> of arithmetic on \<open>undefined\<close>, the value
    of \<open>amounts[amounts.length - 1]\<close> for an empty array.
\<close>

datatype error =
    NoContractsConfigured int
  | WrappedTokenNotFound string
  | CallFailed string
  | NoRouteFound string string
  | UndefinedAmount

subsection \<open>Chain registries\<close>

record ChainContracts =
  factory :: address
  router :: address
  explorer :: string

definition contractsByChainId :: "int \<rightharpoonup> ChainContracts" where
  "contractsByChainId =
     [5042002 \<mapsto> \<lparr>factory = ''0x7cC023C7184810B84657D55c1943eBfF8603B72B'',
                   router = ''0xB92428D440c335546b69138F7fAF689F5ba8D436'',
                   explorer = ''https://testnet.arcscan.app/tx/''\<rparr>]"

definition getContractsForChain :: "int \<Rightarrow> error + ChainContracts" where
  "getContractsForChain cid =
     (case contractsByChainId cid of
        None \<Rightarrow> Inl (NoContractsConfigured cid)
      | Some contracts \<Rightarrow> Inr contracts)"

record ChainConfig =
  nativeSymbol :: string
  wrappedSymbol :: string
  rpcUrl :: string

definition chainConfig :: "int \<rightharpoonup> ChainConfig" where
  "chainConfig =
     [5042002 \<mapsto> \<lparr>nativeSymbol = ''USDC'', wrappedSymbol = ''wUSDC'',
                   rpcUrl = ''https://rpc.testnet.arc.network''\<rparr>]"

text \<open>\<open>chainConfig[chainId] || {...}\<close>: an absent entry is replaced by the literal.\<close>

definition getChainConfig :: "int \<Rightarrow> ChainConfig" where
  "getChainConfig cid =
     (case chainConfig cid of
        Some config \<Rightarrow> config
      | None \<Rightarrow> \<lparr>nativeSymbol = ''USDC'', wrappedSymbol = ''wUSDC'',
                  rpcUrl = ''https://rpc.testnet.arc.network''\<rparr>)"

subsection \<open>Recipient of a swap\<close>

definition startsWith :: "string \<Rightarrow> string \<Rightarrow> bool" where
  "startsWith s p = (take (length p) s = p)"

text \<open>
  \<open>recipientAddress && recipientAddress.startsWith('0x') && recipientAddress.length === 42
  ? recipientAddress : address\<close>; a string is falsy exactly when it is empty.
\<close>

definition recipient :: "string \<Rightarrow> address \<Rightarrow> address" where
  "recipient recipientAddr account =
     (if recipientAddr \<noteq> [] \<and> startsWith recipientAddr ''0x'' \<and> length recipientAddr = 42
      then recipientAddr else account)"

text \<open>
  The spec's wording of a syntactically valid address: the prefix \<open>0x\<close> followed by 40
  hexadecimal characters.
\<close>

definition isHexChar :: "char \<Rightarrow> bool" where
  "isHexChar c = (c \<in> set ''0123456789abcdefABCDEF'')"

definition spec_validAddress :: "string \<Rightarrow> bool" where
  "spec_validAddress a =
     (take 2 a = ''0x'' \<and> length (drop 2 a) = 40 \<and> list_all isHexChar (drop 2 a))"

subsection \<open>JavaScript numbers\<close>

text \<open>
  \<open>slippage\<close> and \<open>priceImpact\<close> are JavaScript numbers, that is IEEE 754 binary64
  values. A finite double is a rational \<open>m * 2^e\<close> with \<open>\<bar>m\<bar> < 2^53\<close>, and every
  arithmetic operation returns the exact result rounded to the nearest double, ties to
  the even mantissa. The model keeps the rational value of a double and rounds after
  each operation with \<open>fl64\<close>: \<open>binade x\<close> is the exponent \<open>e\<close> with
  \<open>2^e \<le> \<bar>x\<bar> < 2^(e+1)\<close>, \<open>ulp x\<close> the spacing of the doubles there (subnormal
  below \<open>2^-1022\<close>). Overflow to \<open>Infinity\<close> is not modelled: all values of the
  modelled code stay far below \<open>2^1024\<close>.
\<close>

definition pow2 :: "int \<Rightarrow> rat" where
  "pow2 k = (if 0 \<le> k then 2 ^ nat k else 1 / 2 ^ nat (- k))"

definition binade :: "rat \<Rightarrow> int" where
  "binade x =
     (if 1 \<le> \<bar>x\<bar> then int (floorlog 2 (nat \<lfloor>\<bar>x\<bar>\<rfloor>)) - 1
      else - int (floorlog 2 (nat (\<lceil>1 / \<bar>x\<bar>\<rceil> - 1))))"

definition roundTiesToEven :: "rat \<Rightarrow> int" where
  "roundTiesToEven y =
     (let f = \<lfloor>y\<rfloor>; r = y - of_int f in
      if r < 1 / 2 then f else if 1 / 2 < r then f + 1
      else if even f then f else f + 1)"

definition ulp :: "rat \<Rightarrow> rat" where
  "ulp x = pow2 (max (binade x) (- 1022) - 52)"

definition fl64 :: "rat \<Rightarrow> rat" where
  "fl64 x = (if x = 0 then 0 else of_int (roundTiesToEven (x / ulp x)) * ulp x)"

text \<open>Division of \<open>bigint\<close> values truncates towards zero.\<close>

definition bigint_div :: "int \<Rightarrow> int \<Rightarrow> int" where
  "bigint_div a b = sgn a * sgn b * (\<bar>a\<bar> div \<bar>b\<bar>)"

subsection \<open>Minimum output\<close>

text \<open>
  \<open>amounts[amounts.length - 1] * BigInt(Math.floor((100 - slippage) * 100)) / 10000n\<close>:
  the subtraction and the multiplication inside \<open>Math.floor\<close> are operations on
  doubles; the product with the quoted output and the division are operations on
  \<open>bigint\<close>.
\<close>

definition slippageFactor :: "rat \<Rightarrow> int" where
  "slippageFactor slip = \<lfloor>fl64 (fl64 (100 - slip) * 100)\<rfloor>"

definition amountOutMin :: "nat \<Rightarrow> rat \<Rightarrow> int" where
  "amountOutMin quoted slip = bigint_div (int quoted * slippageFactor slip) 10000"

text \<open>The spec's wording of the factor: the exact floor of \<open>(100 - s) * 100\<close>.\<close>

definition spec_slippageFactor :: "rat \<Rightarrow> int" where
  "spec_slippageFactor s = \<lfloor>(100 - s) * 100\<rfloor>"

definition spec_amountOutMin :: "nat \<Rightarrow> rat \<Rightarrow> int" where
  "spec_amountOutMin quoted s = (int quoted * spec_slippageFactor s) div 10000"

subsection \<open>Calls to collaborators\<close>

text \<open>
  The swap page talks to the router contract, to the ERC-20 contract of the input token
  and to the wallet. A run of the modelled code is the list of the calls it made, in
  order, together with its result or the error that ended it. Each \<open>await\<close> of the
  source is one event.
\<close>

type_synonym path = "address list"

datatype swapCall =
    SwapExactETHForTokens int path address nat nat
  | SwapExactTokensForETH nat int path address nat
  | SwapExactTokensForTokens nat int path address nat

text \<open>
  The arguments are those of the source, in its order:
  \<open>SwapExactETHForTokens amountOutMin path to deadline value\<close>,
  \<open>SwapExactTokensForETH amountIn amountOutMin path to deadline\<close>,
  \<open>SwapExactTokensForTokens amountIn amountOutMin path to deadline\<close>;
  \<open>Allowance token owner spender\<close>, \<open>ApproveEstimateGas token spender amount\<close>,
  \<open>Approve token spender amount gasLimit\<close>, \<open>Swap call gasLimit\<close>.
  \<open>SetRoutingPath path\<close> is the state update \<open>setRoutingPath(path)\<close>, recorded
  among the calls to keep its place in the order; \<open>RefetchBalances\<close> is the pair of
  balance refetches after an approval, a wrap or an unwrap. The calls to the wrapped-token
  contract are \<open>DepositEstimateGas contract value\<close>, \<open>Deposit contract value gasLimit\<close>,
  \<open>WithdrawEstimateGas contract amount\<close> and \<open>Withdraw contract amount gasLimit\<close>.
\<close>

datatype event =
    GetAmountsOut nat path
  | Allowance address address address
  | ApproveEstimateGas address address nat
  | Approve address address nat nat
  | ApproveWait
  | RefetchBalances
  | SetRoutingPath path
  | SwapEstimateGas swapCall
  | Swap swapCall nat
  | SwapWait
  | DepositEstimateGas address nat
  | Deposit address nat nat
  | DepositWait
  | WithdrawEstimateGas address nat
  | Withdraw address nat nat
  | WithdrawWait

type_synonym 'a run = "event list \<times> (error + 'a)"

definition ret :: "'a \<Rightarrow> 'a run" where
  "ret x = ([], Inr x)"

definition throw :: "error \<Rightarrow> 'a run" where
  "throw e = ([], Inl e)"

definition call :: "event \<Rightarrow> error + 'a \<Rightarrow> 'a run" where
  "call ev answer = ([ev], answer)"

definition bind :: "'a run \<Rightarrow> ('a \<Rightarrow> 'b run) \<Rightarrow> 'b run" where
  "bind m f =
     (case m of
        (evs, Inl e) \<Rightarrow> (evs, Inl e)
      | (evs, Inr x) \<Rightarrow> (case f x of (evs', r) \<Rightarrow> (evs @ evs', r)))"

definition try_catch :: "'a run \<Rightarrow> (error \<Rightarrow> 'a run) \<Rightarrow> 'a run" where
  "try_catch m handler =
     (case m of
        (evs, Inl e) \<Rightarrow> (case handler e of (evs', r) \<Rightarrow> (evs @ evs', r))
      | (evs, Inr x) \<Rightarrow> (evs, Inr x))"

text \<open>
  The answers of the collaborators. Within one run the modelled code never repeats a
  call with the same arguments, so answers that are functions of the arguments lose no
  generality over a chain whose state changes between calls.
\<close>

record chain =
  getAmountsOut :: "nat \<Rightarrow> path \<Rightarrow> error + nat list"
  allowance :: "address \<Rightarrow> address \<Rightarrow> address \<Rightarrow> error + nat"
  approveEstimateGas :: "address \<Rightarrow> address \<Rightarrow> nat \<Rightarrow> error + nat"
  approve :: "address \<Rightarrow> address \<Rightarrow> nat \<Rightarrow> nat \<Rightarrow> error + unit"
  approveWait :: "error + string"
  swapEstimateGas :: "swapCall \<Rightarrow> error + nat"
  swap :: "swapCall \<Rightarrow> nat \<Rightarrow> error + unit"
  swapWait :: "error + string"
  depositEstimateGas :: "address \<Rightarrow> nat \<Rightarrow> error + nat"
  deposit :: "address \<Rightarrow> nat \<Rightarrow> nat \<Rightarrow> error + unit"
  depositWait :: "error + string"
  withdrawEstimateGas :: "address \<Rightarrow> nat \<Rightarrow> error + nat"
  withdraw :: "address \<Rightarrow> nat \<Rightarrow> nat \<Rightarrow> error + unit"
  withdrawWait :: "error + string"

definition quote :: "chain \<Rightarrow> nat \<Rightarrow> path \<Rightarrow> (nat list) run" where
  "quote c amountIn p = call (GetAmountsOut amountIn p) (getAmountsOut c amountIn p)"

text \<open>\<open>amounts[amounts.length - 1]\<close>, used in arithmetic.\<close>

definition lastAmount :: "nat list \<Rightarrow> nat run" where
  "lastAmount amounts = (if amounts = [] then throw UndefinedAmount else ret (last amounts))"

subsection \<open>Path construction\<close>

definition zeroAddress :: address where
  "zeroAddress = ''0x0000000000000000000000000000000000000000''"

text \<open>
  \<open>tokens.find(t => t.symbol === wrappedSymbol)?.address\<close>, followed by the check
  \<open>if (!wrappedAddress) throw\<close>, which rejects \<open>undefined\<close> and the empty string.
\<close>

definition wrappedAddressOf :: "Token list \<Rightarrow> string \<Rightarrow> address run" where
  "wrappedAddressOf toks wrappedSym =
     (case List.find (\<lambda>t. symbol t = wrappedSym) toks of
        None \<Rightarrow> throw (WrappedTokenNotFound wrappedSym)
      | Some wrappedTokenData \<Rightarrow>
          if address wrappedTokenData = [] then throw (WrappedTokenNotFound wrappedSym)
          else ret (address wrappedTokenData))"

text \<open>
  The block that builds \<open>path\<close>, which \<open>fetchQuote\<close> (lines 148 to 176) and
  \<open>handleSwap\<close> (lines 593 to 618) contain in the same words.
\<close>

definition buildPath :: "address \<Rightarrow> address \<Rightarrow> address \<Rightarrow> path" where
  "buildPath fromAddr toAddr wrappedAddress =
     (let isFromNative = (fromAddr = zeroAddress);
          isToNative = (toAddr = zeroAddress);
          fromTokenAddress = (if isFromNative then wrappedAddress else fromAddr);
          toTokenAddress = (if isToNative then wrappedAddress else toAddr)
      in if fromTokenAddress = toTokenAddress then [fromTokenAddress, toTokenAddress]
         else if fromTokenAddress = wrappedAddress \<or> toTokenAddress = wrappedAddress
           then [fromTokenAddress, toTokenAddress]
         else [fromTokenAddress, wrappedAddress, toTokenAddress])"

text \<open>The spec's wording of the path construction.\<close>

definition spec_translate :: "address \<Rightarrow> address \<Rightarrow> address" where
  "spec_translate wrapped a = (if a = zeroAddress then wrapped else a)"

definition spec_buildPath :: "address \<Rightarrow> address \<Rightarrow> address \<Rightarrow> path" where
  "spec_buildPath from to wrapped =
     (if spec_translate wrapped from = spec_translate wrapped to
        then [spec_translate wrapped from, spec_translate wrapped to]
      else if spec_translate wrapped from = wrapped \<or> spec_translate wrapped to = wrapped
        then [spec_translate wrapped from, spec_translate wrapped to]
      else [spec_translate wrapped from, wrapped, spec_translate wrapped to])"

subsection \<open>Quoting\<close>

record Quote =
  usedPath :: path
  outputAmount :: nat
  impactPercent :: rat

definition impactBasisPoints :: "nat \<Rightarrow> nat \<Rightarrow> nat" where
  "impactBasisPoints expectedOutput outputAmountBigInt =
     (if expectedOutput > outputAmountBigInt
      then ((expectedOutput - outputAmountBigInt) * 10000) div expectedOutput
      else ((outputAmountBigInt - expectedOutput) * 10000) div expectedOutput)"

text \<open>
  \<open>Number(impactBasisPoints) / 100\<close>, then \<open>Math.max(0, Math.abs(impact))\<close>: the
  conversion of the \<open>bigint\<close> and the division both round to the nearest double.
\<close>

definition percentOfBasisPoints :: "nat \<Rightarrow> rat" where
  "percentOfBasisPoints bps = max 0 \<bar>fl64 (fl64 (of_nat bps) / 100)\<bar>"

text \<open>
  The inner \<open>try\<close> block of \<open>fetchQuote\<close> (lines 205 to 235); whatever is thrown
  inside is caught and replaced by the impact 0.
\<close>

definition estimatePriceImpact :: "chain \<Rightarrow> nat \<Rightarrow> nat \<Rightarrow> path \<Rightarrow> rat run" where
  "estimatePriceImpact c fromAmountBigInt outputAmountBigInt p =
     try_catch
       (let halfAmountBigInt = fromAmountBigInt div 2 in
        if halfAmountBigInt > 0 then
          bind (quote c halfAmountBigInt p) (\<lambda>halfAmountQuotes.
          bind (lastAmount halfAmountQuotes) (\<lambda>halfAmountOutput.
            let expectedOutput = halfAmountOutput * 2 in
            if expectedOutput > 0 \<and> outputAmountBigInt > 0
            then ret (percentOfBasisPoints (impactBasisPoints expectedOutput outputAmountBigInt))
            else ret 0))
        else ret 0)
       (\<lambda>priceImpactError. ret 0)"

text \<open>
  The quote with its fallback, lines 181 to 196 of \<open>fetchQuote\<close>: the innermost
  \<open>catch\<close> rethrows the error of the first call.
\<close>

definition fetchQuote_amounts ::
  "chain \<Rightarrow> nat \<Rightarrow> path \<Rightarrow> address \<Rightarrow> address \<Rightarrow> (path \<times> nat list) run" where
  "fetchQuote_amounts c amountIn p fromAddr toAddr =
     try_catch (bind (quote c amountIn p) (\<lambda>amounts. ret (p, amounts)))
       (\<lambda>err.
          if length p > 2 then
            (let p' = [fromAddr, toAddr] in
             try_catch (bind (quote c amountIn p') (\<lambda>amounts. ret (p', amounts)))
               (\<lambda>_. throw err))
          else throw err)"

text \<open>
  The body of the outer \<open>try\<close> block of \<open>fetchQuote\<close>, from the construction of the
  path on (lines 145 to 235), for tokens and an amount that passed the guards before it;
  \<open>amountIn\<close> is the value of \<open>parseAmount(fromAmount, fromToken.decimals)\<close>. An error
  result is what the outer \<open>catch\<close> receives: it logs the error and clears \<open>toAmount\<close>
  and \<open>priceImpact\<close>. On success \<open>toAmount\<close> is set from \<open>outputAmount\<close> and
  \<open>priceImpact\<close> from \<open>impactPercent\<close>.
\<close>

definition fetchQuote :: "chain \<Rightarrow> Token list \<Rightarrow> int \<Rightarrow> Token \<Rightarrow> Token \<Rightarrow> nat \<Rightarrow> Quote run" where
  "fetchQuote c toks cid from to amountIn =
     bind (wrappedAddressOf toks (wrappedSymbol (getChainConfig cid))) (\<lambda>wrappedAddress.
     let p = buildPath (address from) (address to) wrappedAddress in
     bind (call (SetRoutingPath p) (Inr ())) (\<lambda>_.
     bind (fetchQuote_amounts c amountIn p (address from) (address to)) (\<lambda>(p, amounts).
     bind (lastAmount amounts) (\<lambda>outputAmountBigInt.
     bind (estimatePriceImpact c amountIn outputAmountBigInt p) (\<lambda>impact.
     ret \<lparr>usedPath = p, outputAmount = outputAmountBigInt, impactPercent = impact\<rparr>)))))"

subsection \<open>Executing a swap\<close>

text \<open>
  The quote with its fallback, lines 620 to 636 of \<open>handleSwap\<close>: both failure
  branches throw a new error with the fixed message.
\<close>

definition handleSwap_amounts ::
  "chain \<Rightarrow> ChainConfig \<Rightarrow> nat \<Rightarrow> path \<Rightarrow> address \<Rightarrow> address \<Rightarrow> (path \<times> nat list) run" where
  "handleSwap_amounts c config amountIn p fromAddr toAddr =
     try_catch (bind (quote c amountIn p) (\<lambda>amounts. ret (p, amounts)))
       (\<lambda>err.
          if length p > 2 then
            (let p' = [fromAddr, toAddr] in
             try_catch (bind (quote c amountIn p') (\<lambda>amounts. ret (p', amounts)))
               (\<lambda>_. throw (NoRouteFound (wrappedSymbol config) (nativeSymbol config))))
          else throw (NoRouteFound (wrappedSymbol config) (nativeSymbol config)))"

text \<open>
  The allowance check of the token-to-native branch (lines 675 to 703) and of the
  token-to-token branch (lines 724 to 752), which are the same code.
\<close>

definition approveIfNeeded :: "chain \<Rightarrow> address \<Rightarrow> address \<Rightarrow> address \<Rightarrow> nat \<Rightarrow> unit run" where
  "approveIfNeeded c token account routerAddress amountIn =
     bind (call (Allowance token account routerAddress)
             (allowance c token account routerAddress)) (\<lambda>allowed.
     if allowed < amountIn then
       bind (call (ApproveEstimateGas token routerAddress amountIn)
               (approveEstimateGas c token routerAddress amountIn)) (\<lambda>approveGasEstimate.
       let approveGasLimit = (approveGasEstimate * 150) div 100 in
       bind (call (Approve token routerAddress amountIn approveGasLimit)
               (approve c token routerAddress amountIn approveGasLimit)) (\<lambda>approveTx.
       bind (call ApproveWait (approveWait c)) (\<lambda>approveReceipt.
       call RefetchBalances (Inr ()))))
     else ret ())"

text \<open>Gas estimate, 150 percent buffer, submission: the same in the three branches.\<close>

definition sendSwap :: "chain \<Rightarrow> swapCall \<Rightarrow> unit run" where
  "sendSwap c sc =
     bind (call (SwapEstimateGas sc) (swapEstimateGas c sc)) (\<lambda>gasEstimate.
     let gasLimit = (gasEstimate * 150) div 100 in
     call (Swap sc gasLimit) (swap c sc gasLimit))"

text \<open>
  The rest of \<open>handleSwap\<close> once the path and the quoted output are known, lines 638
  to 772: minimum output, deadline, recipient, then one of the three router calls and
  the wait for its receipt. The settings are read from the component state; \<open>nowMs\<close>
  is \<open>Date.now()\<close>.
\<close>

definition handleSwap_submit ::
  "chain \<Rightarrow> SwapState \<Rightarrow> address \<Rightarrow> address \<Rightarrow> nat \<Rightarrow> Token \<Rightarrow> Token \<Rightarrow> nat \<Rightarrow> path \<Rightarrow> nat
     \<Rightarrow> string run" where
  "handleSwap_submit c s account routerAddress nowMs from to amountIn p quoted =
     (let isFromNative = (address from = zeroAddress);
          isToNative = (address to = zeroAddress);
          minOut = amountOutMin quoted (slippage s);
          deadlineTimestamp = nowMs div 1000 + 60 * deadline s;
          rcpt = recipient (recipientAddress s) account
      in
      bind (if isFromNative then
              sendSwap c (SwapExactETHForTokens minOut p rcpt deadlineTimestamp amountIn)
            else if isToNative then
              bind (approveIfNeeded c (address from) account routerAddress amountIn) (\<lambda>_.
              sendSwap c (SwapExactTokensForETH amountIn minOut p rcpt deadlineTimestamp))
            else
              bind (approveIfNeeded c (address from) account routerAddress amountIn) (\<lambda>_.
              sendSwap c (SwapExactTokensForTokens amountIn minOut p rcpt deadlineTimestamp)))
        (\<lambda>_. call SwapWait (swapWait c)))"

text \<open>
  \<open>handleSwap\<close> after the dispatch of wrap and unwrap, from line 590 to the receipt of
  the swap (line 772), for a connected wallet \<open>account\<close> and configured contracts with
  router \<open>routerAddress\<close>; \<open>amountIn\<close> is the value of
  \<open>parseAmount(fromAmount, fromToken.decimals)\<close>. The result is the hash of the
  receipt; the bookkeeping that follows it in the source is \<open>saveTransaction\<close>.
\<close>

definition handleSwap ::
  "chain \<Rightarrow> SwapState \<Rightarrow> int \<Rightarrow> address \<Rightarrow> address \<Rightarrow> nat \<Rightarrow> Token \<Rightarrow> Token \<Rightarrow> nat \<Rightarrow> string run" where
  "handleSwap c s cid account routerAddress nowMs from to amountIn =
     (let config = getChainConfig cid in
      bind (wrappedAddressOf (tokens s) (wrappedSymbol config)) (\<lambda>wrappedAddress.
      let p = buildPath (address from) (address to) wrappedAddress in
      bind (handleSwap_amounts c config amountIn p (address from) (address to)) (\<lambda>(p, amounts).
      bind (lastAmount amounts) (\<lambda>quoted.
      handleSwap_submit c s account routerAddress nowMs from to amountIn p quoted))))"

text \<open>A run with further events in front of it.\<close>

definition after :: "event list \<Rightarrow> 'a run \<Rightarrow> 'a run" where
  "after evs r = (evs @ fst r, snd r)"

text \<open>The path carried by an event that is a call with a path.\<close>

fun pathOfCall :: "swapCall \<Rightarrow> path" where
  "pathOfCall (SwapExactETHForTokens minOut p rcpt dl v) = p"
| "pathOfCall (SwapExactTokensForETH a minOut p rcpt dl) = p"
| "pathOfCall (SwapExactTokensForTokens a minOut p rcpt dl) = p"

fun pathsOfEvent :: "event \<Rightarrow> path list" where
  "pathsOfEvent (GetAmountsOut a p) = [p]"
| "pathsOfEvent (SwapEstimateGas sc) = [pathOfCall sc]"
| "pathsOfEvent (Swap sc g) = [pathOfCall sc]"
| "pathsOfEvent _ = []"

definition pathsUsed :: "'a run \<Rightarrow> path list" where
  "pathsUsed r = concat (map pathsOfEvent (fst r))"

text \<open>
  The invariant of a path: two or three elements, no native sentinel at either end, and
  the wrapped token in the middle of three.
\<close>

definition wellFormedPath :: "address \<Rightarrow> path \<Rightarrow> bool" where
  "wellFormedPath wrapped p =
     ((length p = 2 \<or> length p = 3) \<and> hd p \<noteq> zeroAddress \<and> last p \<noteq> zeroAddress
      \<and> (length p = 3 \<longrightarrow> p ! 1 = wrapped))"

subsection \<open>Scenarios\<close>

text \<open>
  Concrete inputs for the scenarios of the spec. \<open>initialState\<close> holds the initial
  values of the \<open>useState\<close> cells; \<open>arcState\<close> is the page after the token list of
  chain 5042002 was loaded. \<open>tknToken\<close> stands for an imported token that is neither
  native nor wrapped.
\<close>

definition initialState :: SwapState where
  "initialState = \<lparr>fromToken = None, toToken = None, fromAmount = '''', toAmount = '''',
     showFromSelector = False, showToSelector = False, showSettings = False, tokens = [],
     isSwapping = False, isLoadingQuote = False, slippage = 1 / 2, deadline = 20,
     recipientAddress = '''', priceImpact = None, quoteRefreshInterval = 30,
     routingPath = [], showTransactionHistory = False, isPriceImpactCollapsed = False\<rparr>"

definition arcState :: SwapState where
  "arcState = initialState\<lparr>tokens := arcTestnetTokens\<rparr>"

definition tknToken :: Token where
  "tknToken = \<lparr>address = ''0x1111111111111111111111111111111111111111'', name = ''Token'',
     symbol = ''TKN'', decimals = 6, logoURI = ''/img/logos/unknown-token.png'',
     verified = False, chainId = 5042002\<rparr>"

definition walletAddress :: address where
  "walletAddress = ''0x90F79bf6EB2c4f870365E785982E1f101E93b906''"

definition arcRouter :: address where
  "arcRouter = ''0xB92428D440c335546b69138F7fAF689F5ba8D436''"

text \<open>
  A chain on which every call other than the quote succeeds, with the given quotes and
  the given allowance.
\<close>

definition chainWith :: "(nat \<Rightarrow> path \<Rightarrow> error + nat list) \<Rightarrow> nat \<Rightarrow> chain" where
  "chainWith quotes allowed =
     \<lparr>getAmountsOut = quotes,
      allowance = (\<lambda>token owner spender. Inr allowed),
      approveEstimateGas = (\<lambda>token spender amount. Inr 46000),
      approve = (\<lambda>token spender amount gasLimit. Inr ()),
      approveWait = Inr ''0xa1'',
      swapEstimateGas = (\<lambda>sc. Inr 100000),
      swap = (\<lambda>sc gasLimit. Inr ()),
      swapWait = Inr ''0xb2'',
      depositEstimateGas = (\<lambda>contract v. Inr 30000),
      deposit = (\<lambda>contract v gasLimit. Inr ()),
      depositWait = Inr ''0xc3'',
      withdrawEstimateGas = (\<lambda>contract amount. Inr 40000),
      withdraw = (\<lambda>contract amount gasLimit. Inr ()),
      withdrawWait = Inr ''0xd4''\<rparr>"

text \<open>Only the pool of wUSDC and ACHS exists; it pays two ACHS for one wUSDC.\<close>

definition wrappedPoolQuotes :: "nat \<Rightarrow> path \<Rightarrow> error + nat list" where
  "wrappedPoolQuotes amountIn p =
     (if p = [address wusdcToken, address achsToken] then Inr [amountIn, 2 * amountIn]
      else Inl (CallFailed ''execution reverted''))"

text \<open>Only the direct pool of ACHS and TKN exists; it pays three TKN for one ACHS.\<close>

definition directPoolQuotes :: "nat \<Rightarrow> path \<Rightarrow> error + nat list" where
  "directPoolQuotes amountIn p =
     (if p = [address achsToken, address tknToken] then Inr [amountIn, 3 * amountIn]
      else Inl (CallFailed ''execution reverted''))"

text \<open>No pool exists.\<close>

definition noPoolQuotes :: "nat \<Rightarrow> path \<Rightarrow> error + nat list" where
  "noPoolQuotes amountIn p = Inl (CallFailed ''execution reverted'')"

text \<open>
  A pool that pays nothing for an input of two base units and one base unit for any
  other input.
\<close>

definition dustQuotes :: "nat \<Rightarrow> path \<Rightarrow> error + nat list" where
  "dustQuotes amountIn p = (if amountIn = 2 then Inr [2, 0] else Inr [amountIn, 1])"

text \<open>The spec's wording of the impact in basis points.\<close>

definition spec_impactBasisPoints :: "nat \<Rightarrow> nat \<Rightarrow> nat" where
  "spec_impactBasisPoints expected out =
     (if expected > 0 then nat \<bar>int expected - int out\<bar> * 10000 div expected else 0)"



text \<open>
  The router call of the two branches of \<open>handleSwap\<close> that start from a token, and its
  estimate, submission and receipt.
\<close>

definition tokenSwapCall :: "SwapState \<Rightarrow> address \<Rightarrow> nat \<Rightarrow> Token \<Rightarrow> nat \<Rightarrow> path \<Rightarrow> nat \<Rightarrow> swapCall" where
  "tokenSwapCall s account nowMs to amountIn p quoted =
     (if address to = zeroAddress
      then SwapExactTokensForETH amountIn (amountOutMin quoted (slippage s)) p
             (recipient (recipientAddress s) account) (nowMs div 1000 + 60 * deadline s)
      else SwapExactTokensForTokens amountIn (amountOutMin quoted (slippage s)) p
             (recipient (recipientAddress s) account) (nowMs div 1000 + 60 * deadline s))"

definition swapAndWait :: "chain \<Rightarrow> swapCall \<Rightarrow> string run" where
  "swapAndWait c sc = bind (sendSwap c sc) (\<lambda>_. call SwapWait (swapWait c))"

text \<open>
  A constant-product pool of wUSDC and ACHS with reserves of 1000 base units on each
  side and no fee.
\<close>

definition curvedQuotes :: "nat \<Rightarrow> path \<Rightarrow> error + nat list" where
  "curvedQuotes amountIn p = Inr [amountIn, amountIn * 1000 div (1000 + amountIn)]"

subsection \<open>Wrap, unwrap and the dispatch of the swap button\<close>





text \<open>The router calls of a run, and the recipient argument of a router call.\<close>

fun recipientOfCall :: "swapCall \<Rightarrow> address" where
  "recipientOfCall (SwapExactETHForTokens minOut p rcpt dl v) = rcpt"
| "recipientOfCall (SwapExactTokensForETH a minOut p rcpt dl) = rcpt"
| "recipientOfCall (SwapExactTokensForTokens a minOut p rcpt dl) = rcpt"

fun callsOfEvent :: "event \<Rightarrow> swapCall list" where
  "callsOfEvent (SwapEstimateGas sc) = [sc]"
| "callsOfEvent (Swap sc g) = [sc]"
| "callsOfEvent _ = []"

definition callsSubmitted :: "'a run \<Rightarrow> swapCall list" where
  "callsSubmitted r = concat (map callsOfEvent (fst r))"

text \<open>The router call of the branch of \<open>handleSwap\<close> that starts from the native asset.\<close>

definition nativeSwapCall :: "SwapState \<Rightarrow> address \<Rightarrow> nat \<Rightarrow> nat \<Rightarrow> path \<Rightarrow> nat \<Rightarrow> swapCall" where
  "nativeSwapCall s account nowMs amountIn p quoted =
     SwapExactETHForTokens (amountOutMin quoted (slippage s)) p
       (recipient (recipientAddress s) account) (nowMs div 1000 + 60 * deadline s) amountIn"

section \<open>Flip of the swap direction\<close>

text \<open>
  C10. The flip exchanges \<open>fromToken\<close> with \<open>toToken\<close> and \<open>fromAmount\<close> with
  \<open>toAmount\<close>, changes no other cell of the component state, and is its own inverse.
\<close>

theorem handleSwapTokens_involution:
  "handleSwapTokens s =
     s\<lparr>fromToken := toToken s, toToken := fromToken s,
       fromAmount := toAmount s, toAmount := fromAmount s\<rparr>
   \<and> fromToken (handleSwapTokens s) = toToken s
   \<and> toToken (handleSwapTokens s) = fromToken s
   \<and> fromAmount (handleSwapTokens s) = toAmount s
   \<and> toAmount (handleSwapTokens s) = fromAmount s
   \<and> handleSwapTokens (handleSwapTokens s) = s"
  by (simp add: handleSwapTokens_def Let_def)

section \<open>Bounded transaction history\<close>

lemma pushHistory_short:
  "length existing < 50 \<Longrightarrow> pushHistory t existing = t # existing"
  by (simp add: pushHistory_def Let_def)

lemma pushHistory_full:
  "length existing = 50 \<Longrightarrow> pushHistory t existing = t # butlast existing"
  by (cases existing) (auto simp add: pushHistory_def Let_def)

text \<open>
  C9. Saving into a history of at most 50 records leaves at most 50 records. The new
  record is stored first; the oldest record (the last of the list) is dropped exactly
  when the history already held 50 records, and every other record is kept in order.
  Histories of other chains are untouched.
\<close>

theorem saveTransaction_bounded:
  assumes "length (history store cid) \<le> 50"
  shows "length (history (saveTransaction cid now store from to fa ta h) cid) \<le> 50
    \<and> history (saveTransaction cid now store from to fa ta h) cid =
        mkTransaction cid now from to fa ta h #
          (if length (history store cid) = 50 then butlast (history store cid)
           else history store cid)
    \<and> (\<forall>c. c \<noteq> cid \<longrightarrow>
          history (saveTransaction cid now store from to fa ta h) c = history store c)"
proof (cases "length (history store cid) = 50")
  case True
  then show ?thesis
    by (simp add: saveTransaction_def history_def Let_def pushHistory_full)
next
  case False
  with assms have "length (history store cid) < 50" by simp
  then show ?thesis
    by (simp add: saveTransaction_def history_def Let_def pushHistory_short)
qed

theorem saveTransaction_bounded_witness:
  "length (history [5042002 \<mapsto> replicate 50 (mkTransaction 5042002 1 achsToken usdcToken ''3'' ''4'' ''0x01'')] 5042002) \<le> 50
   \<and> history (saveTransaction 5042002 2
         [5042002 \<mapsto> replicate 50 (mkTransaction 5042002 1 achsToken usdcToken ''3'' ''4'' ''0x01'')]
         usdcToken achsToken ''1'' ''2'' ''0x02'') 5042002 =
       mkTransaction 5042002 2 usdcToken achsToken ''1'' ''2'' ''0x02'' #
         replicate 49 (mkTransaction 5042002 1 achsToken usdcToken ''3'' ''4'' ''0x01'')"
  using saveTransaction_bounded [of "[5042002 \<mapsto> replicate 50 (mkTransaction 5042002 1 achsToken usdcToken ''3'' ''4'' ''0x01'')]"
      5042002 2 usdcToken achsToken "''1''" "''2''" "''0x02''"]
  by (simp add: history_def butlast_conv_take)

section \<open>Chain registries\<close>

text \<open>
  The claim C6 as stated fails for the symbol and RPC registry: chain 1 has no entry in
  \<open>chainConfig\<close>, and \<open>getChainConfig\<close> returns the ARC testnet values for it instead
  of failing.
\<close>

theorem getChainConfig_default_counterexample:
  "chainConfig 1 = None \<and>
   getChainConfig 1 = \<lparr>nativeSymbol = ''USDC'', wrappedSymbol = ''wUSDC'',
                        rpcUrl = ''https://rpc.testnet.arc.network''\<rparr>"
  by (simp add: chainConfig_def getChainConfig_def)

text \<open>
  C6 (amended). For a chain id without an entry, the lookup of the contract addresses
  \<open>getContractsForChain\<close> fails with \<open>NoContractsConfigured\<close>, and the lookup of the
  symbols and RPC endpoint \<open>getChainConfig\<close> returns the default values (USDC, wUSDC,
  ARC testnet RPC). For a chain id with an entry, both return the entry unchanged.
\<close>

theorem chain_lookup:
  "(contractsByChainId cid = None \<longrightarrow> getContractsForChain cid = Inl (NoContractsConfigured cid))
   \<and> (\<forall>contracts. contractsByChainId cid = Some contracts \<longrightarrow> getContractsForChain cid = Inr contracts)
   \<and> (chainConfig cid = None \<longrightarrow>
        getChainConfig cid = \<lparr>nativeSymbol = ''USDC'', wrappedSymbol = ''wUSDC'',
                               rpcUrl = ''https://rpc.testnet.arc.network''\<rparr>)
   \<and> (\<forall>config. chainConfig cid = Some config \<longrightarrow> getChainConfig cid = config)"
  by (simp add: getContractsForChain_def getChainConfig_def)

theorem chain_lookup_witness:
  "contractsByChainId 1 = None \<and> getContractsForChain 1 = Inl (NoContractsConfigured 1)
   \<and> getContractsForChain 5042002 =
        Inr \<lparr>factory = ''0x7cC023C7184810B84657D55c1943eBfF8603B72B'',
             router = ''0xB92428D440c335546b69138F7fAF689F5ba8D436'',
             explorer = ''https://testnet.arcscan.app/tx/''\<rparr>
   \<and> wrappedSymbol (getChainConfig 5042002) = ''wUSDC''
   \<and> chainConfig 7 = None \<and> nativeSymbol (getChainConfig 7) = ''USDC''"
  using chain_lookup [of 1] chain_lookup [of 5042002] chain_lookup [of 7]
  by (simp add: contractsByChainId_def chainConfig_def)

section \<open>Recipient resolution\<close>

text \<open>
  The claim C5 as stated fails on a recipient with characters that are not hexadecimal:
  the string of \<open>0x\<close> and forty letters \<open>z\<close> is not a valid address, and it is used
  as the recipient all the same.
\<close>

theorem recipient_nonhex_counterexample:
  "\<not> spec_validAddress ''0xzzzzzzzzzzzzzzzzzzzzzzzzzzzzzzzzzzzzzzzz''
   \<and> recipient ''0xzzzzzzzzzzzzzzzzzzzzzzzzzzzzzzzzzzzzzzzz''
        ''0x45Bb5425f293bdd209c894364C462421FF5FfA48''
      = ''0xzzzzzzzzzzzzzzzzzzzzzzzzzzzzzzzzzzzzzzzz''"
  by (simp add: spec_validAddress_def recipient_def startsWith_def isHexChar_def)

text \<open>
  The check of the configured recipient looks at the length and the prefix only: every
  syntactically valid address is used, and an empty string, a string of another length
  and a string with another prefix fall back to the wallet address.
\<close>

lemma recipient_cases:
  "recipient r account = (if length r = 42 \<and> take 2 r = ''0x'' then r else account)
   \<and> (spec_validAddress r \<longrightarrow> recipient r account = r)
   \<and> (r = [] \<or> length r \<noteq> 42 \<or> take 2 r \<noteq> ''0x'' \<longrightarrow> recipient r account = account)"
  by (auto simp add: recipient_def startsWith_def spec_validAddress_def numeral_2_eq_2)

section \<open>Runs and their events\<close>

lemmas run_defs = bind_def try_catch_def call_def ret_def throw_def quote_def lastAmount_def

text \<open>Laws of the sequencing of runs.\<close>

lemma bind_ret: "bind (ret x) f = f x"
  by (cases "f x") (simp add: bind_def ret_def)

lemma bind_throw: "bind (throw e) f = throw e"
  by (simp add: bind_def throw_def)

lemma bind_call_Inr: "bind (call ev (Inr v)) f = after [ev] (f v)"
  by (cases "f v") (simp add: bind_def call_def after_def)

lemma bind_call_Inl: "bind (call ev (Inl e)) f = ([ev], Inl e)"
  by (simp add: bind_def call_def)

lemma fst_after: "fst (after evs r) = evs @ fst r"
  by (simp add: after_def)

lemma snd_after: "snd (after evs r) = snd r"
  by (simp add: after_def)

lemma fst_bind: "\<exists>rest. fst (bind m f) = fst m @ rest"
  by (cases m) (auto simp add: bind_def split: sum.splits prod.splits)

lemma take_fst_bind: "n \<le> length (fst m) \<Longrightarrow> take n (fst (bind m f)) = take n (fst m)"
  using fst_bind [of m f] by auto

section \<open>Path construction\<close>

lemma buildPath_spec: "buildPath f t w = spec_buildPath f t w"
  by (simp add: buildPath_def spec_buildPath_def spec_translate_def Let_def)

lemma fetchQuote_amounts_first:
  "\<exists>rest. fst (fetchQuote_amounts c a p f t) = GetAmountsOut a p # rest"
  by (simp add: fetchQuote_amounts_def run_defs Let_def split: sum.splits)

lemma handleSwap_amounts_first:
  "\<exists>rest. fst (handleSwap_amounts c cfg a p f t) = GetAmountsOut a p # rest"
  by (simp add: handleSwap_amounts_def run_defs Let_def split: sum.splits)

text \<open>
  C1. With wrapped-token address \<open>w\<close> found in the token list, the path that
  \<open>fetchQuote\<close> shows and quotes first, and the path that \<open>handleSwap\<close> quotes first,
  is the path of the spec: the native sentinel at either end is replaced by \<open>w\<close>; equal
  translated ends give the two-element path; otherwise an end equal to \<open>w\<close> gives the
  direct two-element path; otherwise the path runs through \<open>w\<close>. From the native token
  the path is the two-element \<open>[w, to]\<close>, never of three elements.
\<close>

theorem path_construction:
  assumes "wrappedAddressOf toks (wrappedSymbol (getChainConfig cid)) = ret w"
    and "tokens s = toks"
  shows "take 2 (fst (fetchQuote c toks cid from to a)) =
           [SetRoutingPath (spec_buildPath (address from) (address to) w),
            GetAmountsOut a (spec_buildPath (address from) (address to) w)]
       \<and> take 1 (fst (handleSwap c s cid account rt now from to a)) =
           [GetAmountsOut a (spec_buildPath (address from) (address to) w)]
       \<and> (address from = zeroAddress \<longrightarrow>
            spec_buildPath (address from) (address to) w = [w, spec_translate w (address to)])
       \<and> (address from = zeroAddress \<and> address to \<noteq> zeroAddress \<longrightarrow>
            spec_buildPath (address from) (address to) w = [w, address to])"
proof -
  let ?p = "spec_buildPath (address from) (address to) w"
  obtain r1 where r1: "fst (fetchQuote_amounts c a ?p (address from) (address to)) = GetAmountsOut a ?p # r1"
    using fetchQuote_amounts_first by blast
  obtain r2 where r2: "fst (handleSwap_amounts c (getChainConfig cid) a ?p (address from) (address to)) = GetAmountsOut a ?p # r2"
    using handleSwap_amounts_first by blast
  have a: "take 2 (fst (fetchQuote c toks cid from to a)) = [SetRoutingPath ?p, GetAmountsOut a ?p]"
    unfolding fetchQuote_def assms(1) buildPath_spec Let_def bind_ret bind_call_Inr fst_after
    by (simp add: take_fst_bind r1)
  have b: "take 1 (fst (handleSwap c s cid account rt now from to a)) = [GetAmountsOut a ?p]"
    unfolding handleSwap_def assms buildPath_spec Let_def bind_ret
    by (simp add: take_fst_bind r2)
  have c: "address from = zeroAddress \<longrightarrow> ?p = [w, spec_translate w (address to)]"
    by (simp add: spec_buildPath_def spec_translate_def)
  have d: "address from = zeroAddress \<and> address to \<noteq> zeroAddress \<longrightarrow> ?p = [w, address to]"
    by (simp add: spec_buildPath_def spec_translate_def)
  from a b c d show ?thesis by blast
qed


lemma wrapped_arc:
  "wrappedAddressOf arcTestnetTokens (wrappedSymbol (getChainConfig 5042002)) = ret (address wusdcToken)"
  by (simp add: wrappedAddressOf_def getChainConfig_def chainConfig_def arcTestnetTokens_def
      usdcToken_def wusdcToken_def achsToken_def)

lemma tokens_arcState: "tokens arcState = arcTestnetTokens"
  by (simp add: arcState_def)

theorem path_construction_witness:
  "wrappedAddressOf arcTestnetTokens (wrappedSymbol (getChainConfig 5042002)) = ret (address wusdcToken)
   \<and> tokens arcState = arcTestnetTokens
   \<and> address usdcToken = zeroAddress \<and> address achsToken \<noteq> zeroAddress
   \<and> take 2 (fst (fetchQuote (chainWith wrappedPoolQuotes 0) arcTestnetTokens 5042002 usdcToken achsToken 100)) =
       [SetRoutingPath [''0xDe5DB9049a8dd344dC1B7Bbb098f9da60930A6dA'', ''0x45Bb5425f293bdd209c894364C462421FF5FfA48''],
        GetAmountsOut 100 [''0xDe5DB9049a8dd344dC1B7Bbb098f9da60930A6dA'', ''0x45Bb5425f293bdd209c894364C462421FF5FfA48'']]
   \<and> take 1 (fst (handleSwap (chainWith wrappedPoolQuotes 0) arcState 5042002 walletAddress arcRouter
         1700000000000 usdcToken achsToken 100)) =
       [GetAmountsOut 100 [''0xDe5DB9049a8dd344dC1B7Bbb098f9da60930A6dA'', ''0x45Bb5425f293bdd209c894364C462421FF5FfA48'']]"
proof -
  have sp: "spec_buildPath (address usdcToken) (address achsToken) (address wusdcToken) =
      [''0xDe5DB9049a8dd344dC1B7Bbb098f9da60930A6dA'', ''0x45Bb5425f293bdd209c894364C462421FF5FfA48'']"
    by (simp add: spec_buildPath_def spec_translate_def usdcToken_def achsToken_def
        wusdcToken_def zeroAddress_def)
  have ends: "address usdcToken = zeroAddress \<and> address achsToken \<noteq> zeroAddress"
    by (simp add: usdcToken_def achsToken_def zeroAddress_def)
  show ?thesis
    using path_construction [where toks = arcTestnetTokens and cid = 5042002 and s = arcState
      and w = "address wusdcToken" and c = "chainWith wrappedPoolQuotes 0" and ?from = usdcToken
      and to = achsToken and a = 100 and account = walletAddress and rt = arcRouter
      and now = 1700000000000, OF wrapped_arc tokens_arcState]
    unfolding sp using wrapped_arc tokens_arcState ends by blast
qed

section \<open>Paths used in calls\<close>

lemma pathsUsed_ret: "pathsUsed (ret x) = []"
  by (simp add: pathsUsed_def ret_def)

lemma pathsUsed_throw: "pathsUsed (throw e) = []"
  by (simp add: pathsUsed_def throw_def)

lemma pathsUsed_call: "pathsUsed (call ev answer) = pathsOfEvent ev"
  by (simp add: pathsUsed_def call_def)

lemma paths_bind:
  assumes "list_all P (pathsUsed m)"
    and "\<And>x. snd m = Inr x \<Longrightarrow> list_all P (pathsUsed (f x))"
  shows "list_all P (pathsUsed (bind m f))"
proof (cases m)
  case (Pair evs r)
  show ?thesis
  proof (cases r)
    case (Inl e)
    with Pair assms(1) show ?thesis by (simp add: bind_def pathsUsed_def)
  next
    case (Inr x)
    with Pair assms(2) [of x] have "list_all P (pathsUsed (f x))" by simp
    with Pair Inr assms(1) show ?thesis
      by (cases "f x") (simp add: bind_def pathsUsed_def)
  qed
qed

lemma paths_try_catch:
  assumes "list_all P (pathsUsed m)"
    and "\<And>e. snd m = Inl e \<Longrightarrow> list_all P (pathsUsed (h e))"
  shows "list_all P (pathsUsed (try_catch m h))"
proof (cases m)
  case (Pair evs r)
  show ?thesis
  proof (cases r)
    case (Inr x)
    with Pair assms(1) show ?thesis by (simp add: try_catch_def pathsUsed_def)
  next
    case (Inl e)
    with Pair assms(2) [of e] have "list_all P (pathsUsed (h e))" by simp
    with Pair Inl assms(1) show ?thesis
      by (cases "h e") (simp add: try_catch_def pathsUsed_def)
  qed
qed

lemma paths_quote: "list_all P (pathsUsed (quote c a p)) = P p"
  by (simp add: quote_def pathsUsed_call)

lemma paths_lastAmount: "pathsUsed (lastAmount amounts) = []"
  by (simp add: lastAmount_def pathsUsed_ret pathsUsed_throw)

lemma paths_estimatePriceImpact:
  "P p \<Longrightarrow> list_all P (pathsUsed (estimatePriceImpact c a out p))"
  unfolding estimatePriceImpact_def Let_def
  by (intro paths_try_catch paths_bind)
     (simp_all add: paths_quote paths_lastAmount pathsUsed_ret paths_bind)

lemma paths_fetchQuote_amounts:
  assumes "P p" and "length p > 2 \<Longrightarrow> P [f, t]"
  shows "list_all P (pathsUsed (fetchQuote_amounts c a p f t))"
  unfolding fetchQuote_amounts_def Let_def
  using assms
  by (intro paths_try_catch paths_bind)
     (auto simp add: paths_quote pathsUsed_ret pathsUsed_throw intro!: paths_try_catch paths_bind)

lemma result_fetchQuote_amounts:
  assumes "snd (fetchQuote_amounts c a p f t) = Inr (p', amounts)"
  shows "p' = p \<or> (length p > 2 \<and> p' = [f, t])"
  using assms
  by (auto simp add: fetchQuote_amounts_def run_defs Let_def split: sum.splits if_splits)

lemma paths_handleSwap_amounts:
  assumes "P p" and "length p > 2 \<Longrightarrow> P [f, t]"
  shows "list_all P (pathsUsed (handleSwap_amounts c cfg a p f t))"
  unfolding handleSwap_amounts_def Let_def
  using assms
  by (intro paths_try_catch paths_bind)
     (auto simp add: paths_quote pathsUsed_ret pathsUsed_throw intro!: paths_try_catch paths_bind)

lemma result_handleSwap_amounts:
  assumes "snd (handleSwap_amounts c cfg a p f t) = Inr (p', amounts)"
  shows "p' = p \<or> (length p > 2 \<and> p' = [f, t])"
  using assms
  by (auto simp add: handleSwap_amounts_def run_defs Let_def split: sum.splits if_splits)

lemma paths_approveIfNeeded: "pathsUsed (approveIfNeeded c tok acct rt a) = []"
  by (simp add: approveIfNeeded_def run_defs pathsUsed_def Let_def split: sum.splits)

lemma paths_sendSwap: "P (pathOfCall sc) \<Longrightarrow> list_all P (pathsUsed (sendSwap c sc))"
  by (simp add: sendSwap_def run_defs pathsUsed_def Let_def split: sum.splits)

lemma paths_handleSwap_submit:
  "P p \<Longrightarrow> list_all P (pathsUsed (handleSwap_submit c s acct rt now from to a p quoted))"
  unfolding handleSwap_submit_def Let_def
  by (intro paths_bind)
     (auto simp add: paths_sendSwap paths_approveIfNeeded pathsUsed_call intro!: paths_bind)

lemma wellFormed_buildPath:
  "w \<noteq> zeroAddress \<Longrightarrow> wellFormedPath w (buildPath f t w)"
  by (simp add: wellFormedPath_def buildPath_def Let_def)

lemma wellFormed_fallback:
  "length (buildPath f t w) > 2 \<Longrightarrow> wellFormedPath w [f, t]"
  by (auto simp add: wellFormedPath_def buildPath_def Let_def split: if_splits)

text \<open>
  C8. Let the wrapped-token address \<open>w\<close> found in the token list differ from the native
  sentinel. Then every path passed to \<open>getAmountsOut\<close> or to a swap call by
  \<open>fetchQuote\<close> and \<open>handleSwap\<close>, the direct fallback path and the path of the
  half-amount quote included, has two or three elements, has no native sentinel at
  either end, and has \<open>w\<close> in the middle when it has three elements.
\<close>

theorem paths_wellFormed:
  assumes "wrappedAddressOf toks (wrappedSymbol (getChainConfig cid)) = ret w"
    and "tokens s = toks"
    and "w \<noteq> zeroAddress"
  shows "list_all (wellFormedPath w) (pathsUsed (fetchQuote c toks cid from to a))
       \<and> list_all (wellFormedPath w) (pathsUsed (handleSwap c s cid account rt now from to a))"
proof -
  let ?p = "buildPath (address from) (address to) w"
  let ?P = "wellFormedPath w"
  have p: "?P ?p" using assms(3) by (rule wellFormed_buildPath)
  have d: "length ?p > 2 \<Longrightarrow> ?P [address from, address to]"
    by (rule wellFormed_fallback)
  have used: "?P p'" if "p' = ?p \<or> (length ?p > 2 \<and> p' = [address from, address to])" for p'
    using that p d by auto
  have "list_all ?P (pathsUsed (fetchQuote c toks cid from to a))"
    unfolding fetchQuote_def assms(1) Let_def bind_ret
    apply (intro paths_bind)
     apply (simp add: pathsUsed_call)
     apply (rule paths_fetchQuote_amounts [OF p d], assumption)
    apply (clarsimp simp add: paths_lastAmount)
    apply (intro paths_bind)
      apply (simp add: paths_lastAmount)
     apply (rule paths_estimatePriceImpact)
     apply (rule used)
     apply (erule result_fetchQuote_amounts)
    apply (simp add: pathsUsed_ret)
    done
  moreover have "list_all ?P (pathsUsed (handleSwap c s cid account rt now from to a))"
    unfolding handleSwap_def assms(1) assms(2) Let_def bind_ret
    apply (intro paths_bind)
     apply (rule paths_handleSwap_amounts [OF p d], assumption)
    apply (clarsimp)
    apply (intro paths_bind)
     apply (simp add: paths_lastAmount)
    apply (rule paths_handleSwap_submit)
    apply (rule used)
    apply (erule result_handleSwap_amounts)
    done
  ultimately show ?thesis by simp
qed


theorem paths_wellFormed_witness:
  "wrappedAddressOf arcTestnetTokens (wrappedSymbol (getChainConfig 5042002)) = ret (address wusdcToken)
   \<and> tokens arcState = arcTestnetTokens
   \<and> address wusdcToken \<noteq> zeroAddress
   \<and> list_all (wellFormedPath (address wusdcToken))
        (pathsUsed (fetchQuote (chainWith directPoolQuotes 0) arcTestnetTokens 5042002 achsToken tknToken 100))
   \<and> list_all (wellFormedPath (address wusdcToken))
        (pathsUsed (handleSwap (chainWith directPoolQuotes 0) arcState 5042002 walletAddress arcRouter
           1700000000000 achsToken tknToken 100))"
proof -
  have nz: "address wusdcToken \<noteq> zeroAddress"
    by (simp add: wusdcToken_def zeroAddress_def)
  show ?thesis
    using paths_wellFormed [where toks = arcTestnetTokens and cid = 5042002 and s = arcState
      and w = "address wusdcToken" and c = "chainWith directPoolQuotes 0" and ?from = achsToken
      and to = tknToken and a = 100 and account = walletAddress and rt = arcRouter
      and now = 1700000000000, OF wrapped_arc tokens_arcState nz] nz
    by (simp add: wrapped_arc tokens_arcState)
qed

section \<open>Fallback to the direct path\<close>

lemma estimatePriceImpact_total:
  "\<exists>evs x. estimatePriceImpact c a out p = (evs, Inr x)"
  by (simp add: estimatePriceImpact_def run_defs Let_def split: sum.splits)









lemmas token_defs = usdcToken_def wusdcToken_def achsToken_def tknToken_def




section \<open>The submission stage\<close>



lemma submit_token:
  assumes "address from \<noteq> zeroAddress"
  shows "handleSwap_submit c s account rt now from to a p quoted =
     bind (approveIfNeeded c (address from) account rt a)
       (\<lambda>_. swapAndWait c (tokenSwapCall s account now to a p quoted))"
proof -
  have assoc: "bind (bind m f) g = bind m (\<lambda>x. bind (f x) g)" for m :: "unit run" and f :: "unit \<Rightarrow> unit run" and g :: "unit \<Rightarrow> string run"
    by (cases m) (auto simp add: bind_def split: sum.splits prod.splits)
  show ?thesis
    using assms
    by (simp add: handleSwap_submit_def tokenSwapCall_def swapAndWait_def Let_def assoc)
qed



section \<open>Rounding of doubles\<close>

lemma pow2_powi: "pow2 k = 2 powi k"
  by (simp add: pow2_def power_int_def inverse_eq_divide power_one_over)

lemma pow2_pos: "0 < pow2 k"
  by (simp add: pow2_powi)

lemma pow2_add: "pow2 (j + k) = pow2 j * pow2 k"
  by (simp add: pow2_powi power_int_add)

lemma pow2_nat: "pow2 (int n) = 2 ^ n"
  by (simp add: pow2_def)

lemma pow2_neg_nat: "pow2 (- int n) = 1 / 2 ^ n"
  by (simp add: pow2_powi power_int_minus inverse_eq_divide)

lemma pow2_less: "j < k \<Longrightarrow> pow2 j < pow2 k"
  by (simp add: pow2_powi power_int_strict_increasing)

lemma pow2_le: "j \<le> k \<Longrightarrow> pow2 j \<le> pow2 k"
  by (simp add: pow2_powi power_int_increasing)

text \<open>\<open>binade\<close> is the exponent of the power of two at or below the magnitude.\<close>

lemma binade_bounds:
  assumes "x \<noteq> 0"
  shows "pow2 (binade x) \<le> \<bar>x\<bar> \<and> \<bar>x\<bar> < pow2 (binade x + 1)"
proof (cases "1 \<le> \<bar>x\<bar>")
  case True
  define n where "n = nat \<lfloor>\<bar>x\<bar>\<rfloor>"
  have n1: "1 \<le> n" using True by (simp add: n_def le_nat_iff le_floor_iff)
  have nx: "of_nat n \<le> \<bar>x\<bar>" "\<bar>x\<bar> < of_nat n + 1"
    using True by (simp_all add: n_def) linarith+
  from n1 have fb: "2 ^ (floorlog 2 n - 1) \<le> n" "n < 2 ^ floorlog 2 n"
    using floorlog_bounds [of n 2] by simp_all
  have fl1: "1 \<le> floorlog 2 n"
    using n1 by (simp add: floorlog_def)
  have b: "binade x = int (floorlog 2 n - 1)"
    using True fl1 by (simp add: binade_def n_def)
  have b1: "binade x + 1 = int (floorlog 2 n)"
    using b fl1 by simp
  have lo: "pow2 (binade x) \<le> \<bar>x\<bar>"
  proof -
    have "(2::rat) ^ (floorlog 2 n - 1) \<le> of_nat n"
      using fb(1) by (metis of_nat_le_iff of_nat_numeral of_nat_power)
    with nx(1) show ?thesis unfolding b pow2_nat by linarith
  qed
  have hi: "\<bar>x\<bar> < pow2 (binade x + 1)"
  proof -
    have "n + 1 \<le> 2 ^ floorlog 2 n" using fb(2) by simp
    then have "(of_nat (n + 1) :: rat) \<le> of_nat (2 ^ floorlog 2 n)"
      by (simp only: of_nat_le_iff)
    then have "(of_nat n :: rat) + 1 \<le> 2 ^ floorlog 2 n" by simp
    with nx(2) show ?thesis unfolding b1 pow2_nat by linarith
  qed
  from lo hi show ?thesis ..
next
  case False
  define y where "y = 1 / \<bar>x\<bar>"
  have xpos: "0 < \<bar>x\<bar>" using assms by simp
  have y1: "1 < y" using False xpos by (simp add: y_def)
  define m where "m = nat (\<lceil>y\<rceil> - 1)"
  have c2: "2 \<le> \<lceil>y\<rceil>" using y1 by linarith
  have m1: "1 \<le> m" using c2 unfolding m_def by linarith
  have my: "of_nat m < y" "y \<le> of_nat m + 1"
  proof -
    have "of_int (\<lceil>y\<rceil> - 1) < y" by linarith
    moreover have "(of_nat m :: rat) = of_int (\<lceil>y\<rceil> - 1)"
      using c2 by (simp add: m_def)
    ultimately show "of_nat m < y" by simp
    have "y \<le> of_int \<lceil>y\<rceil>" by simp
    moreover have "(of_nat m :: rat) + 1 = of_int \<lceil>y\<rceil>"
      using c2 by (simp add: m_def)
    ultimately show "y \<le> of_nat m + 1" by simp
  qed
  from m1 have fb: "2 ^ (floorlog 2 m - 1) \<le> m" "m < 2 ^ floorlog 2 m"
    using floorlog_bounds [of m 2] by simp_all
  have fl1: "1 \<le> floorlog 2 m"
    using m1 by (simp add: floorlog_def)
  have b: "binade x = - int (floorlog 2 m)"
    using False by (simp add: binade_def m_def y_def)
  have b1: "binade x + 1 = - int (floorlog 2 m - 1)"
    using b fl1 by simp
  have ylo: "(2::rat) ^ (floorlog 2 m - 1) < y"
  proof -
    have "(2::rat) ^ (floorlog 2 m - 1) \<le> of_nat m"
      using fb(1) by (metis of_nat_le_iff of_nat_numeral of_nat_power)
    with my(1) show ?thesis by linarith
  qed
  have yhi: "y \<le> 2 ^ floorlog 2 m"
  proof -
    have "m + 1 \<le> 2 ^ floorlog 2 m" using fb(2) by simp
    then have "(of_nat (m + 1) :: rat) \<le> of_nat (2 ^ floorlog 2 m)"
      by (simp only: of_nat_le_iff)
    then have "(of_nat m :: rat) + 1 \<le> 2 ^ floorlog 2 m" by simp
    with my(2) show ?thesis by linarith
  qed
  have xy: "\<bar>x\<bar> = 1 / y" using xpos by (simp add: y_def)
  have ypos: "0 < y" using y1 by simp
  have lo: "pow2 (binade x) \<le> \<bar>x\<bar>"
    unfolding b pow2_neg_nat xy using yhi ypos
    by (simp add: frac_le)
  have hi: "\<bar>x\<bar> < pow2 (binade x + 1)"
    unfolding b1 pow2_neg_nat xy using ylo ypos
    by (simp add: frac_less2)
  from lo hi show ?thesis ..
qed

lemma binade_eqI:
  assumes "pow2 k \<le> \<bar>x\<bar>" and "\<bar>x\<bar> < pow2 (k + 1)"
  shows "binade x = k"
proof -
  have "x \<noteq> 0" using assms(1) pow2_pos [of k] by auto
  then have b: "pow2 (binade x) \<le> \<bar>x\<bar>" "\<bar>x\<bar> < pow2 (binade x + 1)"
    using binade_bounds by blast+
  have "\<not> binade x < k"
  proof
    assume "binade x < k"
    then have "pow2 (binade x + 1) \<le> pow2 k" by (intro pow2_le) simp
    with b(2) assms(1) show False by linarith
  qed
  moreover have "\<not> k < binade x"
  proof
    assume "k < binade x"
    then have "pow2 (k + 1) \<le> pow2 (binade x)" by (intro pow2_le) simp
    with b(1) assms(2) show False by linarith
  qed
  ultimately show ?thesis by linarith
qed

text \<open>Rounding to an integer moves a value by at most one half.\<close>

lemma roundTiesToEven_error: "\<bar>of_int (roundTiesToEven y) - y\<bar> \<le> 1 / 2"
proof -
  define r where "r = y - of_int \<lfloor>y\<rfloor>"
  have r: "0 \<le> r" "r < 1" unfolding r_def by linarith+
  have y: "y = of_int \<lfloor>y\<rfloor> + r" by (simp add: r_def)
  consider "r < 1 / 2" | "1 / 2 < r" | "r = 1 / 2" by linarith
  then show ?thesis
  proof cases
    case 1
    then have "roundTiesToEven y = \<lfloor>y\<rfloor>"
      by (simp add: roundTiesToEven_def Let_def r_def)
    with 1 r show ?thesis by (simp add: r_def)
  next
    case 2
    then have "roundTiesToEven y = \<lfloor>y\<rfloor> + 1"
      by (simp add: roundTiesToEven_def Let_def r_def)
    with 2 r show ?thesis by (simp add: r_def abs_if)
  next
    case 3
    then have "roundTiesToEven y = \<lfloor>y\<rfloor> \<or> roundTiesToEven y = \<lfloor>y\<rfloor> + 1"
      by (simp add: roundTiesToEven_def Let_def r_def)
    with 3 show ?thesis by (auto simp add: r_def abs_if)
  qed
qed

lemma roundTiesToEven_eqI:
  assumes "\<bar>y - of_int n\<bar> < 1 / 2"
  shows "roundTiesToEven y = n"
proof -
  have "\<bar>of_int (roundTiesToEven y) - y\<bar> \<le> 1 / 2" by (rule roundTiesToEven_error)
  with assms have "\<bar>(of_int (roundTiesToEven y) :: rat) - of_int n\<bar> < 1" by linarith
  then have "\<bar>(of_int (roundTiesToEven y - n) :: rat)\<bar> < 1" by simp
  then have "\<bar>roundTiesToEven y - n\<bar> < 1"
    by (metis of_int_abs of_int_less_1_iff)
  then show ?thesis by linarith
qed

lemma roundTiesToEven_nonneg: "0 \<le> y \<Longrightarrow> 0 \<le> roundTiesToEven y"
  by (auto simp add: roundTiesToEven_def Let_def)

lemma ulp_pos: "0 < ulp x"
  by (simp add: ulp_def pow2_pos)

lemma fl64_nonneg: "0 \<le> x \<Longrightarrow> 0 \<le> fl64 x"
  using ulp_pos [of x] by (simp add: fl64_def roundTiesToEven_nonneg)

text \<open>Rounding to a double moves a value by at most half the spacing there.\<close>

lemma fl64_error: "\<bar>fl64 x - x\<bar> \<le> ulp x / 2"
proof (cases "x = 0")
  case True
  then show ?thesis using ulp_pos [of 0] by (simp add: fl64_def)
next
  case False
  have u: "0 < ulp x" by (rule ulp_pos)
  have "fl64 x - x = (of_int (roundTiesToEven (x / ulp x)) - x / ulp x) * ulp x"
    using False u by (simp add: fl64_def algebra_simps)
  then have "\<bar>fl64 x - x\<bar> = \<bar>of_int (roundTiesToEven (x / ulp x)) - x / ulp x\<bar> * ulp x"
    using u by (simp add: abs_mult)
  also have "\<dots> \<le> (1 / 2) * ulp x"
    using roundTiesToEven_error [of "x / ulp x"] u by (intro mult_right_mono) simp_all
  finally show ?thesis by simp
qed

lemma ulp_eqI:
  assumes "pow2 k \<le> \<bar>x\<bar>" and "\<bar>x\<bar> < pow2 (k + 1)" and "- 1022 \<le> k"
  shows "ulp x = pow2 (k - 52)"
  using binade_eqI [OF assms(1,2)] assms(3) by (simp add: ulp_def)

lemma fl64_eqI:
  assumes "pow2 k \<le> \<bar>x\<bar>" and "\<bar>x\<bar> < pow2 (k + 1)" and "- 1022 \<le> k"
    and "\<bar>x / pow2 (k - 52) - of_int n\<bar> < 1 / 2"
  shows "fl64 x = of_int n * pow2 (k - 52)"
proof -
  have "x \<noteq> 0" using assms(1) pow2_pos [of k] by auto
  then show ?thesis
    using ulp_eqI [OF assms(1-3)] roundTiesToEven_eqI [OF assms(4)]
    by (simp add: fl64_def)
qed


lemma fl64_exact:
  assumes "pow2 k \<le> \<bar>x\<bar>" and "\<bar>x\<bar> < pow2 (k + 1)" and "- 1022 \<le> k"
    and "x / pow2 (k - 52) = of_int n"
  shows "fl64 x = x"
proof -
  have "\<bar>x / pow2 (k - 52) - of_int n\<bar> < 1 / 2" using assms(4) by simp
  from fl64_eqI [OF assms(1-3) this] have "fl64 x = of_int n * pow2 (k - 52)" .
  also have "\<dots> = x" using assms(4) [symmetric] pow2_pos [of "k - 52"] by simp
  finally show ?thesis .
qed

text \<open>A value exactly between two doubles goes to the one with the even mantissa.\<close>

lemma roundTiesToEven_tie:
  assumes "y = of_int n + 1 / 2" and "even n"
  shows "roundTiesToEven y = n"
proof -
  have f: "\<lfloor>y\<rfloor> = n" unfolding assms(1) by (simp add: floor_eq_iff)
  have "y - of_int n = 1 / 2" using assms(1) by simp
  then show ?thesis using assms(2) by (simp add: roundTiesToEven_def Let_def f)
qed

lemma fl64_tieI:
  assumes "pow2 k \<le> \<bar>x\<bar>" and "\<bar>x\<bar> < pow2 (k + 1)" and "- 1022 \<le> k"
    and "x / pow2 (k - 52) = of_int n + 1 / 2" and "even n"
  shows "fl64 x = of_int n * pow2 (k - 52)"
proof -
  have "x \<noteq> 0" using assms(1) pow2_pos [of k] by auto
  then show ?thesis
    using ulp_eqI [OF assms(1-3)] roundTiesToEven_tie [OF assms(4,5)]
    by (simp add: fl64_def)
qed

lemma pow2_less_cancel: "pow2 j < pow2 k \<Longrightarrow> j < k"
  using pow2_le [of k j] by (cases "j < k") auto

lemma ulp_le:
  assumes "x \<noteq> 0" and "\<bar>x\<bar> < pow2 (k + 1)" and "- 1022 \<le> k"
  shows "ulp x \<le> pow2 (k - 52)"
proof -
  have "pow2 (binade x) \<le> \<bar>x\<bar>" using binade_bounds [OF assms(1)] by simp
  with assms(2) have "pow2 (binade x) < pow2 (k + 1)" by linarith
  then have "binade x < k + 1" by (rule pow2_less_cancel)
  with assms(3) have "max (binade x) (- 1022) - 52 \<le> k - 52" by simp
  then show ?thesis unfolding ulp_def by (rule pow2_le)
qed

section \<open>Minimum output under slippage\<close>

lemma bigint_div_nonneg: "0 \<le> a \<Longrightarrow> 0 < b \<Longrightarrow> bigint_div a b = a div b"
  by (cases "a = 0") (simp_all add: bigint_div_def)

lemma slippageFactor_nonneg: "s \<le> 100 \<Longrightarrow> 0 \<le> slippageFactor s"
proof -
  assume "s \<le> 100"
  then have "0 \<le> fl64 (100 - s)" by (intro fl64_nonneg) simp
  then have "0 \<le> fl64 (fl64 (100 - s) * 100)" by (intro fl64_nonneg) simp
  then show ?thesis by (simp add: slippageFactor_def)
qed

lemma slippage_product_error:
  assumes "0 \<le> s" and "s \<le> 50"
  shows "\<bar>fl64 (fl64 (100 - s) * 100) - (100 - s) * 100\<bar> < 1"
proof -
  define x where "x = 100 - s"
  define a where "a = fl64 x"
  have x: "50 \<le> x" "x \<le> 100" using assms by (simp_all add: x_def)
  have "ulp x \<le> pow2 (6 - 52)"
    using x by (intro ulp_le) (simp_all add: pow2_def)
  then have ux: "ulp x \<le> 1 / 2 ^ 46" by (simp add: pow2_def)
  have ea: "\<bar>a - x\<bar> \<le> 1 / 2 ^ 47"
    using fl64_error [of x] ux unfolding a_def by simp
  from ea have "\<bar>a - x\<bar> \<le> 1" by (rule order_trans) simp
  with x have a: "49 \<le> a" "a \<le> 101" by linarith+
  have "ulp (a * 100) \<le> pow2 (13 - 52)"
    using a by (intro ulp_le) (simp_all add: pow2_def)
  then have up: "ulp (a * 100) \<le> 1 / 2 ^ 39" by (simp add: pow2_def)
  have ep: "\<bar>fl64 (a * 100) - a * 100\<bar> \<le> 1 / 2 ^ 40"
    using fl64_error [of "a * 100"] up by simp
  have "\<bar>fl64 (a * 100) - x * 100\<bar> \<le> 1 / 2 ^ 40 + 100 / 2 ^ 47"
    using ea ep by linarith
  also have "\<dots> < 1" by simp
  finally show ?thesis by (simp add: a_def x_def)
qed

lemma floor_close:
  fixes x y :: rat
  assumes "\<bar>y - x\<bar> < 1"
  shows "\<bar>\<lfloor>y\<rfloor> - \<lfloor>x\<rfloor>\<bar> \<le> 1"
proof -
  have "of_int \<lfloor>y\<rfloor> \<le> y" "y < of_int \<lfloor>y\<rfloor> + 1" "of_int \<lfloor>x\<rfloor> \<le> x" "x < of_int \<lfloor>x\<rfloor> + 1"
    by linarith+
  with assms have "(of_int \<lfloor>y\<rfloor> :: rat) < of_int \<lfloor>x\<rfloor> + 2" "(of_int \<lfloor>x\<rfloor> :: rat) < of_int \<lfloor>y\<rfloor> + 2"
    by linarith+
  then have "\<lfloor>y\<rfloor> < \<lfloor>x\<rfloor> + 2" "\<lfloor>x\<rfloor> < \<lfloor>y\<rfloor> + 2"
    by (metis of_int_add of_int_less_iff of_int_numeral)+
  then show ?thesis by linarith
qed

lemma slippageFactor_half: "slippageFactor (1 / 2) = 9950"
proof -
  have a: "fl64 (199 / 2) = 199 / 2"
    by (rule fl64_exact [where k = 6 and n = "199 * 2 ^ 45"]) (simp_all add: pow2_def)
  have b: "fl64 9950 = 9950"
    by (rule fl64_exact [where k = 13 and n = "9950 * 2 ^ 39"]) (simp_all add: pow2_def)
  have "(100 - 1 / 2 :: rat) = 199 / 2" by simp
  then have "slippageFactor (1 / 2) = \<lfloor>fl64 (fl64 (199 / 2) * 100)\<rfloor>"
    by (simp only: slippageFactor_def)
  also have "\<dots> = \<lfloor>fl64 9950\<rfloor>" by (simp add: a)
  also have "\<dots> = 9950" by (simp add: b)
  finally show ?thesis .
qed

text \<open>
  For a slippage between 0 and 50, the factor is the floor of a product of doubles; the
  two roundings move the product by less than one, so the factor is within one of the
  exact \<open>floor((100 - s) * 100)\<close>. At the default slippage 0.5 nothing is rounded, and
  a quoted output of 1,000,000 gives exactly 995,000.
\<close>

lemma amountOutMin_double:
  assumes "0 \<le> s" and "s \<le> 50"
  shows "amountOutMin quoted s = (int quoted * slippageFactor s) div 10000
       \<and> \<bar>slippageFactor s - spec_slippageFactor s\<bar> \<le> 1
       \<and> amountOutMin 1000000 (1 / 2) = 995000"
proof -
  have nn: "0 \<le> slippageFactor s" using assms by (intro slippageFactor_nonneg) simp
  have "amountOutMin quoted s = (int quoted * slippageFactor s) div 10000"
    using nn by (simp add: amountOutMin_def bigint_div_nonneg)
  moreover have "\<bar>slippageFactor s - spec_slippageFactor s\<bar> \<le> 1"
    unfolding slippageFactor_def spec_slippageFactor_def
    by (rule floor_close [OF slippage_product_error [OF assms]])
  moreover have "amountOutMin 1000000 (1 / 2) = 995000"
    by (simp add: amountOutMin_def slippageFactor_half bigint_div_def)
  ultimately show ?thesis by blast
qed

lemma parse_18_4: "fl64 (92 / 5) = of_int 5179139571476070 * pow2 (4 - 52)"
  by (rule fl64_eqI) (simp_all add: pow2_def)

lemma sub_18_4:
  "fl64 (100 - of_int 5179139571476070 * pow2 (4 - 52)) = of_int 5742089524897382 * pow2 (6 - 52)"
  by (rule fl64_tieI) (simp_all add: pow2_def)

lemma mul_18_4:
  "fl64 (of_int 5742089524897382 * pow2 (6 - 52) * 100) = of_int 8972014882652159 * pow2 (12 - 52)"
  by (rule fl64_eqI) (simp_all add: pow2_def)

lemma slippageFactor_18_4: "slippageFactor (fl64 (92 / 5)) = 8159"
  unfolding slippageFactor_def parse_18_4 sub_18_4 mul_18_4
  by (simp add: pow2_def floor_eq_iff)

text \<open>
  C4. The claim fails on the code at the slippage 18.4 (the double that \<open>parseFloat\<close>
  returns for the input \<open>18.4\<close>, a value the settings dialog accepts) and a quoted
  output of 10,000 base units. The subtraction \<open>100 - slippage\<close> falls exactly between
  two doubles and is rounded to the even one, the product with 100 is rounded again and
  lands below 8160, so \<open>Math.floor\<close> yields 8159 and the minimum output is 8159. The
  formula of the claim gives 8160, both for the decimal 18.4 and for the exact value of
  the double.
\<close>

theorem amountOutMin_rounding_counterexample:
  "0 \<le> fl64 (92 / 5) \<and> fl64 (92 / 5) \<le> 50
   \<and> amountOutMin 10000 (fl64 (92 / 5)) = 8159
   \<and> spec_amountOutMin 10000 (92 / 5) = 8160
   \<and> spec_amountOutMin 10000 (fl64 (92 / 5)) = 8160"
proof -
  have r: "0 \<le> fl64 (92 / 5) \<and> fl64 (92 / 5) \<le> 50"
    unfolding parse_18_4 by (simp add: pow2_def)
  have c: "amountOutMin 10000 (fl64 (92 / 5)) = 8159"
    by (simp add: amountOutMin_def slippageFactor_18_4 bigint_div_def)
  have s1: "spec_amountOutMin 10000 (92 / 5) = 8160"
    by (simp add: spec_amountOutMin_def spec_slippageFactor_def)
  have "spec_slippageFactor (fl64 (92 / 5)) = 8160"
    unfolding spec_slippageFactor_def parse_18_4 by (simp add: pow2_def floor_eq_iff)
  then have s2: "spec_amountOutMin 10000 (fl64 (92 / 5)) = 8160"
    by (simp add: spec_amountOutMin_def)
  from r c s1 s2 show ?thesis by blast
qed

section \<open>Price impact\<close>

lemma fl64_rel_error:
  assumes "pow2 (- 1022) \<le> \<bar>x\<bar>"
  shows "\<bar>fl64 x - x\<bar> \<le> \<bar>x\<bar> / 2 ^ 53"
proof -
  have nz: "x \<noteq> 0" using assms pow2_pos [of "- 1022"] by auto
  have b: "pow2 (binade x) \<le> \<bar>x\<bar>" "\<bar>x\<bar> < pow2 (binade x + 1)"
    using binade_bounds [OF nz] by simp_all
  from assms b(2) have "pow2 (- 1022) < pow2 (binade x + 1)" by linarith
  then have "- 1022 < binade x + 1" by (rule pow2_less_cancel)
  then have "ulp x = pow2 (binade x + (- 52))" by (simp add: ulp_def)
  also have "\<dots> = pow2 (binade x) * pow2 (- 52)" by (rule pow2_add)
  also have "\<dots> \<le> \<bar>x\<bar> * pow2 (- 52)"
    using b(1) pow2_pos [of "- 52"] by (intro mult_right_mono) simp_all
  finally have "ulp x \<le> \<bar>x\<bar> / 2 ^ 52" by (simp add: pow2_def)
  with fl64_error [of x] show ?thesis by simp
qed

lemma percentOfBasisPoints_double:
  "percentOfBasisPoints bps = fl64 (fl64 (of_nat bps) / 100)"
proof -
  have "0 \<le> fl64 (of_nat bps)" by (intro fl64_nonneg) simp
  then have "0 \<le> fl64 (fl64 (of_nat bps) / 100)" by (intro fl64_nonneg) simp
  then show ?thesis by (simp add: percentOfBasisPoints_def)
qed

lemma percentOfBasisPoints_error:
  "\<bar>percentOfBasisPoints bps - of_nat bps / 100\<bar> \<le> (of_nat bps / 100) / 2 ^ 51"
proof (cases "bps = 0")
  case True
  then show ?thesis by (simp add: percentOfBasisPoints_double fl64_def)
next
  case False
  define b :: rat where "b = of_nat bps"
  define fb where "fb = fl64 b"
  define z where "z = fb / 100"
  have b1: "1 \<le> b" using False by (simp add: b_def)
  have small: "pow2 (- 1022) \<le> 1 / 2 ^ 8"
    using pow2_le [of "- 1022" "- 8"] by (simp add: pow2_def)
  have "pow2 (- 1022) \<le> \<bar>b\<bar>" using small b1 by simp
  then have eb: "\<bar>fb - b\<bar> \<le> \<bar>b\<bar> / 2 ^ 53" unfolding fb_def by (rule fl64_rel_error)
  have "\<bar>b\<bar> / 2 ^ 53 \<le> b / 2" using b1 by simp
  with eb b1 have fbl: "b / 2 \<le> fb" by linarith
  have zpos: "1 / 200 \<le> z" using fbl b1 by (simp add: z_def)
  have "pow2 (- 1022) \<le> \<bar>z\<bar>" using small zpos by simp
  then have ez: "\<bar>fl64 z - z\<bar> \<le> \<bar>z\<bar> / 2 ^ 53" by (rule fl64_rel_error)
  have zabs: "\<bar>z\<bar> = z" using zpos by simp
  have babs: "\<bar>b\<bar> = b" using b1 by simp
  have e1: "fl64 z \<le> z + z / 2 ^ 53" "z - z / 2 ^ 53 \<le> fl64 z"
    using ez unfolding zabs by linarith+
  have e2: "fb \<le> b + b / 2 ^ 53" "b - b / 2 ^ 53 \<le> fb"
    using eb unfolding babs by linarith+
  have z100: "z = fb / 100" by (simp add: z_def)
  have up: "fl64 z \<le> b / 100 + (b / 100) / 2 ^ 51"
  proof -
    have "z \<le> (b + b / 2 ^ 53) / 100" unfolding z100 using e2(1) by simp
    then have "z + z / 2 ^ 53 \<le> (b + b / 2 ^ 53) / 100 + ((b + b / 2 ^ 53) / 100) / 2 ^ 53"
      by simp
    also have "\<dots> \<le> b / 100 + (b / 100) / 2 ^ 51" using b1 by simp
    finally show ?thesis using e1(1) by linarith
  qed
  have lo: "b / 100 - (b / 100) / 2 ^ 51 \<le> fl64 z"
  proof -
    have "(b - b / 2 ^ 53) / 100 \<le> z" unfolding z100 using e2(2) by simp
    then have "(b - b / 2 ^ 53) / 100 - ((b - b / 2 ^ 53) / 100) / 2 ^ 53 \<le> z - z / 2 ^ 53"
      by simp
    moreover have "b / 100 - (b / 100) / 2 ^ 51
        \<le> (b - b / 2 ^ 53) / 100 - ((b - b / 2 ^ 53) / 100) / 2 ^ 53" using b1 by simp
    ultimately show ?thesis using e1(2) by linarith
  qed
  from up lo have "\<bar>fl64 z - b / 100\<bar> \<le> (b / 100) / 2 ^ 51" by linarith
  then show ?thesis
    by (simp add: percentOfBasisPoints_double z_def fb_def b_def)
qed

lemma impactBasisPoints_spec:
  "0 < expected \<Longrightarrow> impactBasisPoints expected out = spec_impactBasisPoints expected out"
  by (auto simp add: impactBasisPoints_def spec_impactBasisPoints_def nat_diff_distrib' abs_if)

lemma fetchQuote_first_ok:
  assumes "wrappedAddressOf toks (wrappedSymbol (getChainConfig cid)) = ret w"
    and "p = buildPath (address from) (address to) w"
    and "getAmountsOut c a p = Inr am" and "am \<noteq> []"
    and "estimatePriceImpact c a (last am) p = (evs, Inr x)"
  shows "fetchQuote c toks cid from to a =
      (SetRoutingPath p # GetAmountsOut a p # evs,
       Inr \<lparr>usedPath = p, outputAmount = last am, impactPercent = x\<rparr>)"
  using assms(3-5) unfolding assms(2)
  by (simp add: fetchQuote_def assms(1) bind_ret fetchQuote_amounts_def run_defs Let_def)

text \<open>
  C3 (amended). For the input amount \<open>a\<close>, the quoted output \<open>out\<close> and the path \<open>p\<close>
  of the quote, let \<open>H = a div 2\<close>. If \<open>H = 0\<close> the impact is 0 and no call is made.
  Otherwise exactly one further quote is made, for \<open>H\<close> on the same path. If it
  succeeds with the output \<open>O_half\<close> and \<open>expected = O_half * 2\<close>, the impact in basis
  points is \<open>\<bar>expected - out\<bar> * 10000 div expected\<close> when \<open>expected > 0\<close> and also
  \<open>out > 0\<close>, and 0 otherwise; the reported percent is that value converted to a
  double and divided by 100, which is \<open>bps / 100\<close> up to a relative rounding error of
  \<open>2^-51\<close>. If the further quote fails or returns no amounts, the impact is 0 and no
  error is raised. After a successful first quote, \<open>fetchQuote\<close> estimates the impact
  with the amount, the output and the path of that quote.
\<close>

theorem price_impact:
  "(a div 2 = 0 \<longrightarrow> estimatePriceImpact c a out p = ([], Inr 0))
   \<and> (0 < a div 2 \<longrightarrow>
        fst (estimatePriceImpact c a out p) = [GetAmountsOut (a div 2) p]
        \<and> (\<forall>half. getAmountsOut c (a div 2) p = Inr half \<and> half \<noteq> [] \<longrightarrow>
              snd (estimatePriceImpact c a out p) =
                Inr (if 0 < last half * 2 \<and> 0 < out
                     then percentOfBasisPoints (spec_impactBasisPoints (last half * 2) out)
                     else 0))
        \<and> (getAmountsOut c (a div 2) p = Inr [] \<or> (\<exists>e. getAmountsOut c (a div 2) p = Inl e) \<longrightarrow>
              snd (estimatePriceImpact c a out p) = Inr 0))
   \<and> percentOfBasisPoints bps = fl64 (fl64 (of_nat bps) / 100)
   \<and> \<bar>percentOfBasisPoints bps - of_nat bps / 100\<bar> \<le> (of_nat bps / 100) / 2 ^ 51
   \<and> (wrappedAddressOf toks (wrappedSymbol (getChainConfig cid)) = ret w
        \<and> getAmountsOut c a (buildPath (address from) (address to) w) = Inr am \<and> am \<noteq> [] \<longrightarrow>
        (\<exists>evs x. estimatePriceImpact c a (last am) (buildPath (address from) (address to) w) = (evs, Inr x)
           \<and> fetchQuote c toks cid from to a =
               (SetRoutingPath (buildPath (address from) (address to) w)
                  # GetAmountsOut a (buildPath (address from) (address to) w) # evs,
                Inr \<lparr>usedPath = buildPath (address from) (address to) w,
                     outputAmount = last am, impactPercent = x\<rparr>)))"
proof -
  have zero: "estimatePriceImpact c a out p = ([], Inr 0)" if "a div 2 = 0"
    using that by (simp add: estimatePriceImpact_def run_defs Let_def)
  have evs: "fst (estimatePriceImpact c a out p) = [GetAmountsOut (a div 2) p]" if "0 < a div 2"
    using that by (simp add: estimatePriceImpact_def run_defs Let_def split: sum.splits)
  have ok: "snd (estimatePriceImpact c a out p) =
                Inr (if 0 < last half * 2 \<and> 0 < out
                     then percentOfBasisPoints (spec_impactBasisPoints (last half * 2) out)
                     else 0)"
    if "0 < a div 2" "getAmountsOut c (a div 2) p = Inr half" "half \<noteq> []" for half
    using that
    by (simp add: estimatePriceImpact_def run_defs Let_def impactBasisPoints_spec)
  have bad: "snd (estimatePriceImpact c a out p) = Inr 0"
    if "0 < a div 2" "getAmountsOut c (a div 2) p = Inr [] \<or> (\<exists>e. getAmountsOut c (a div 2) p = Inl e)"
    using that by (auto simp add: estimatePriceImpact_def run_defs Let_def)
  have fq: "\<exists>evs x. estimatePriceImpact c a (last am) (buildPath (address from) (address to) w) = (evs, Inr x)
           \<and> fetchQuote c toks cid from to a =
               (SetRoutingPath (buildPath (address from) (address to) w)
                  # GetAmountsOut a (buildPath (address from) (address to) w) # evs,
                Inr \<lparr>usedPath = buildPath (address from) (address to) w,
                     outputAmount = last am, impactPercent = x\<rparr>)"
    if h: "wrappedAddressOf toks (wrappedSymbol (getChainConfig cid)) = ret w"
      "getAmountsOut c a (buildPath (address from) (address to) w) = Inr am" "am \<noteq> []"
  proof -
    obtain evs x where ep: "estimatePriceImpact c a (last am) (buildPath (address from) (address to) w) = (evs, Inr x)"
      using estimatePriceImpact_total by blast
    from fetchQuote_first_ok [OF h(1) refl h(2,3) ep] ep show ?thesis by blast
  qed
  from zero evs ok bad fq percentOfBasisPoints_double [of bps] percentOfBasisPoints_error [of bps]
  show ?thesis by blast
qed


lemma percentOfBasisPoints_425: "percentOfBasisPoints 425 = 17 / 4"
proof -
  have a: "fl64 425 = 425"
    by (rule fl64_exact [where k = 8 and n = "425 * 2 ^ 44"]) (simp_all add: pow2_def)
  have b: "fl64 (17 / 4) = 17 / 4"
    by (rule fl64_exact [where k = 2 and n = "17 * 2 ^ 48"]) (simp_all add: pow2_def)
  have "percentOfBasisPoints 425 = fl64 (fl64 425 / 100)"
    using percentOfBasisPoints_double [of 425] by simp
  also have "\<dots> = fl64 (17 / 4)" by (simp add: a)
  finally show ?thesis by (simp add: b)
qed

lemma wusdc_achs_path:
  "buildPath (address usdcToken) (address achsToken) (address wusdcToken) =
     [address wusdcToken, address achsToken]"
  by (simp add: buildPath_def token_defs zeroAddress_def Let_def)

theorem price_impact_witness:
  "0 < (100::nat) div 2
   \<and> getAmountsOut (chainWith curvedQuotes 0) 50 [address wusdcToken, address achsToken] = Inr [50, 47]
   \<and> estimatePriceImpact (chainWith curvedQuotes 0) 100 90 [address wusdcToken, address achsToken] =
       ([GetAmountsOut 50 [address wusdcToken, address achsToken]], Inr (17 / 4))
   \<and> (1::nat) div 2 = 0
   \<and> estimatePriceImpact (chainWith curvedQuotes 0) 1 0 [address wusdcToken, address achsToken] =
       ([], Inr 0)
   \<and> getAmountsOut (chainWith noPoolQuotes 0) 50 [address wusdcToken, address achsToken] =
       Inl (CallFailed ''execution reverted'')
   \<and> estimatePriceImpact (chainWith noPoolQuotes 0) 100 90 [address wusdcToken, address achsToken] =
       ([GetAmountsOut 50 [address wusdcToken, address achsToken]], Inr 0)
   \<and> fetchQuote (chainWith curvedQuotes 0) arcTestnetTokens 5042002 usdcToken achsToken 100 =
       ([SetRoutingPath [address wusdcToken, address achsToken],
         GetAmountsOut 100 [address wusdcToken, address achsToken],
         GetAmountsOut 50 [address wusdcToken, address achsToken]],
        Inr \<lparr>usedPath = [address wusdcToken, address achsToken], outputAmount = 90,
             impactPercent = 17 / 4\<rparr>)"
proof -
  let ?P = "[address wusdcToken, address achsToken]"
  let ?c = "chainWith curvedQuotes 0"
  let ?n = "chainWith noPoolQuotes 0"
  have h: "0 < (100::nat) div 2" by simp
  have z: "(1::nat) div 2 = 0" by simp
  have q50: "getAmountsOut ?c 50 ?P = Inr [50, 47]"
    by (simp add: chainWith_def curvedQuotes_def)
  have q100: "getAmountsOut ?c 100 (buildPath (address usdcToken) (address achsToken) (address wusdcToken)) = Inr [100, 90]"
    by (simp add: chainWith_def curvedQuotes_def)
  have n50: "getAmountsOut ?n 50 ?P = Inl (CallFailed ''execution reverted'')"
    by (simp add: chainWith_def noPoolQuotes_def)
  have bps: "spec_impactBasisPoints (last [50, 47] * 2) 90 = 425" "0 < last [50, 47::nat] * 2"
    by (simp_all add: spec_impactBasisPoints_def)
  note t = price_impact [where c = ?c and a = 100 and out = 90 and p = ?P and bps = 425
      and toks = arcTestnetTokens and cid = 5042002 and w = "address wusdcToken"
      and ?from = usdcToken and to = achsToken and am = "[100, 90]"]
  note t2 = t [THEN conjunct2, THEN conjunct1, THEN mp, OF h]
  have e1: "fst (estimatePriceImpact ?c 100 90 ?P) = [GetAmountsOut 50 ?P]"
    using t2 by simp
  have "snd (estimatePriceImpact ?c 100 90 ?P) =
      Inr (if 0 < last [50, 47::nat] * 2 \<and> 0 < (90::nat)
           then percentOfBasisPoints (spec_impactBasisPoints (last [50, 47] * 2) 90) else 0)"
    using t2 [THEN conjunct2, THEN conjunct1, THEN spec, of "[50, 47]"] q50 by simp
  then have e2: "snd (estimatePriceImpact ?c 100 90 ?P) = Inr (17 / 4)"
    unfolding bps by (simp add: percentOfBasisPoints_425)
  have est: "estimatePriceImpact ?c 100 90 ?P = ([GetAmountsOut 50 ?P], Inr (17 / 4))"
    using e1 e2 by (simp add: prod_eq_iff)
  have zero: "estimatePriceImpact ?c 1 0 ?P = ([], Inr 0)"
    using price_impact [where c = ?c and a = 1 and out = 0 and p = ?P, THEN conjunct1] z by simp
  note f = price_impact [where c = ?n and a = 100 and out = 90 and p = ?P,
      THEN conjunct2, THEN conjunct1, THEN mp, OF h]
  have f1: "fst (estimatePriceImpact ?n 100 90 ?P) = [GetAmountsOut 50 ?P]"
    using f by simp
  have f2: "snd (estimatePriceImpact ?n 100 90 ?P) = Inr 0"
    using f [THEN conjunct2, THEN conjunct2] n50 by simp
  have fail: "estimatePriceImpact ?n 100 90 ?P = ([GetAmountsOut 50 ?P], Inr 0)"
    using f1 f2 by (simp add: prod_eq_iff)
  have "\<exists>evs x. estimatePriceImpact ?c 100 (last [100, 90])
            (buildPath (address usdcToken) (address achsToken) (address wusdcToken)) = (evs, Inr x)
        \<and> fetchQuote ?c arcTestnetTokens 5042002 usdcToken achsToken 100 =
            (SetRoutingPath (buildPath (address usdcToken) (address achsToken) (address wusdcToken))
               # GetAmountsOut 100 (buildPath (address usdcToken) (address achsToken) (address wusdcToken)) # evs,
             Inr \<lparr>usedPath = buildPath (address usdcToken) (address achsToken) (address wusdcToken),
                  outputAmount = last [100, 90], impactPercent = x\<rparr>)"
    using t [THEN conjunct2, THEN conjunct2, THEN conjunct2, THEN conjunct2] wrapped_arc q100
    by simp
  then have fq: "fetchQuote ?c arcTestnetTokens 5042002 usdcToken achsToken 100 =
       ([SetRoutingPath ?P, GetAmountsOut 100 ?P, GetAmountsOut 50 ?P],
        Inr \<lparr>usedPath = ?P, outputAmount = 90, impactPercent = 17 / 4\<rparr>)"
    unfolding wusdc_achs_path using est by auto
  from h q50 est z zero n50 fail fq show ?thesis by blast
qed

text \<open>
  The claim C3 as stated fails when the quoted output is 0 and the half-amount quote is
  not: for an input of 2 base units quoted at 0 and a half-amount output of 1, the
  expected output is 2, the formula of the claim gives 10000 basis points, and the
  code reports the impact 0 because of its guard on the quoted output.
\<close>

lemma dust_quote:
  "fetchQuote (chainWith dustQuotes 0) arcTestnetTokens 5042002 usdcToken achsToken 2 =
     ([SetRoutingPath [address wusdcToken, address achsToken],
       GetAmountsOut 2 [address wusdcToken, address achsToken],
       GetAmountsOut 1 [address wusdcToken, address achsToken]],
      Inr \<lparr>usedPath = [address wusdcToken, address achsToken], outputAmount = 0,
           impactPercent = 0\<rparr>)"
proof -
  let ?P = "[address wusdcToken, address achsToken]"
  let ?c = "chainWith dustQuotes 0"
  have ep: "estimatePriceImpact ?c 2 (last [2, 0]) ?P = ([GetAmountsOut 1 ?P], Inr 0)"
    by (simp add: estimatePriceImpact_def run_defs Let_def chainWith_def dustQuotes_def)
  have q: "getAmountsOut ?c 2 ?P = Inr [2, 0]"
    by (simp add: chainWith_def dustQuotes_def)
  have ne: "[2, 0::nat] \<noteq> []" by simp
  show ?thesis
    using fetchQuote_first_ok [OF wrapped_arc wusdc_achs_path [symmetric] q ne ep]
    by simp
qed

theorem price_impact_zero_output_counterexample:
  "getAmountsOut (chainWith dustQuotes 0) 2 [address wusdcToken, address achsToken] = Inr [2, 0]
   \<and> getAmountsOut (chainWith dustQuotes 0) (2 div 2) [address wusdcToken, address achsToken] = Inr [1, 1]
   \<and> fetchQuote (chainWith dustQuotes 0) arcTestnetTokens 5042002 usdcToken achsToken 2 =
       ([SetRoutingPath [address wusdcToken, address achsToken],
         GetAmountsOut 2 [address wusdcToken, address achsToken],
         GetAmountsOut 1 [address wusdcToken, address achsToken]],
        Inr \<lparr>usedPath = [address wusdcToken, address achsToken], outputAmount = 0,
             impactPercent = 0\<rparr>)
   \<and> spec_impactBasisPoints (1 * 2) 0 = 10000"
  using dust_quote
  by (simp add: chainWith_def dustQuotes_def spec_impactBasisPoints_def)

section \<open>Recipient of the router call\<close>

lemma events_bind:
  assumes "list_all Q (fst m)"
    and "\<And>x. snd m = Inr x \<Longrightarrow> list_all Q (fst (f x))"
  shows "list_all Q (fst (bind m f))"
proof (cases m)
  case (Pair evs r)
  show ?thesis
  proof (cases r)
    case (Inl e)
    with Pair assms(1) show ?thesis by (simp add: bind_def)
  next
    case (Inr x)
    with Pair assms(2) [of x] have "list_all Q (fst (f x))" by simp
    with Pair Inr assms(1) show ?thesis
      by (cases "f x") (simp add: bind_def)
  qed
qed

lemma calls_iff:
  "list_all P (callsSubmitted r) = list_all (\<lambda>ev. list_all P (callsOfEvent ev)) (fst r)"
  by (simp add: callsSubmitted_def list_all_iff)

lemma events_wrappedAddressOf: "fst (wrappedAddressOf toks wsym) = []"
  by (simp add: wrappedAddressOf_def ret_def throw_def split: option.splits)

lemma events_handleSwap_amounts:
  "list_all (\<lambda>ev. list_all P (callsOfEvent ev)) (fst (handleSwap_amounts c cfg a p f t))"
  by (simp add: handleSwap_amounts_def run_defs Let_def split: sum.splits)

lemma events_lastAmount: "fst (lastAmount amounts) = []"
  by (simp add: lastAmount_def ret_def throw_def)

lemma events_swapAndWait:
  "P sc \<Longrightarrow> list_all (\<lambda>ev. list_all P (callsOfEvent ev)) (fst (swapAndWait c sc))"
  by (simp add: swapAndWait_def sendSwap_def run_defs Let_def split: sum.splits)

lemma events_approveIfNeeded:
  "list_all (\<lambda>ev. list_all P (callsOfEvent ev)) (fst (approveIfNeeded c tok acct rt a))"
  by (simp add: approveIfNeeded_def run_defs Let_def split: sum.splits)

lemma submit_native:
  assumes "address from = zeroAddress"
  shows "handleSwap_submit c s account rt now from to a p quoted =
     swapAndWait c (nativeSwapCall s account now a p quoted)"
  using assms
  by (simp add: handleSwap_submit_def nativeSwapCall_def swapAndWait_def Let_def)

lemma recipient_nativeSwapCall:
  "recipientOfCall (nativeSwapCall s account now a p quoted) = recipient (recipientAddress s) account"
  by (simp add: nativeSwapCall_def)

lemma recipient_tokenSwapCall:
  "recipientOfCall (tokenSwapCall s account now to a p quoted) = recipient (recipientAddress s) account"
  by (simp add: tokenSwapCall_def)

lemma calls_handleSwap_submit:
  "list_all (\<lambda>sc. recipientOfCall sc = recipient (recipientAddress s) account)
     (callsSubmitted (handleSwap_submit c s account rt now from to a p quoted))"
proof (cases "address from = zeroAddress")
  case True
  show ?thesis
    unfolding calls_iff submit_native [OF True]
    by (rule events_swapAndWait) (rule recipient_nativeSwapCall)
next
  case False
  show ?thesis
    unfolding calls_iff submit_token [OF False]
    by (intro events_bind events_approveIfNeeded events_swapAndWait recipient_tokenSwapCall)
qed

lemma calls_handleSwap:
  "list_all (\<lambda>sc. recipientOfCall sc = recipient (recipientAddress s) account)
     (callsSubmitted (handleSwap c s cid account rt now from to a))"
  unfolding calls_iff handleSwap_def Let_def
  apply (intro events_bind)
    apply (simp add: events_wrappedAddressOf)
   apply (rule events_handleSwap_amounts)
  apply (clarsimp)
  apply (intro events_bind)
   apply (simp add: events_lastAmount)
  apply (rule calls_handleSwap_submit [unfolded calls_iff])
  done

lemma handleSwap_first_ok:
  assumes "wrappedAddressOf (tokens s) (wrappedSymbol (getChainConfig cid)) = ret w"
    and "p = buildPath (address from) (address to) w"
    and "getAmountsOut c a p = Inr am" and "am \<noteq> []"
  shows "handleSwap c s cid account rt now from to a =
      after [GetAmountsOut a p] (handleSwap_submit c s account rt now from to a p (last am))"
  using assms(3-4) unfolding assms(2)
  by (cases "handleSwap_submit c s account rt now from to a (buildPath (address from) (address to) w) (last am)")
     (simp add: handleSwap_def assms(1) bind_ret handleSwap_amounts_def run_defs Let_def after_def)

lemma swapAndWait_ok:
  assumes "swapEstimateGas c sc = Inr g" and "swap c sc (g * 150 div 100) = Inr ()"
    and "swapWait c = Inr h"
  shows "swapAndWait c sc = ([SwapEstimateGas sc, Swap sc (g * 150 div 100), SwapWait], Inr h)"
  using assms by (simp add: swapAndWait_def sendSwap_def run_defs Let_def)


lemma after_after: "after xs (after ys r) = after (xs @ ys) r"
  by (simp add: after_def)

lemma after_pair: "after xs (ys, r) = (xs @ ys, r)"
  by (simp add: after_def)

text \<open>
  C5 (amended). Let \<open>r\<close> be the configured recipient address. The recipient is \<open>r\<close>
  exactly when \<open>r\<close> has 42 characters and begins with \<open>0x\<close>, whatever the 40 characters
  after the prefix are, and the connected wallet address otherwise; so every
  syntactically valid address is used and an empty string, a string of another length
  and a string with another prefix fall back to the wallet address. This recipient is
  the recipient argument of every router call that \<open>handleSwap\<close>, and its submission
  stage on any path and quoted output, estimates or submits.
  After a successful first quote the run of \<open>handleSwap\<close> is that quote followed, from
  the native asset, by the estimate, submission and receipt of
  \<open>swapExactETHForTokens\<close> with this recipient, and from a token, by the allowance
  check and then the estimate, submission and receipt of \<open>swapExactTokensForETH\<close> or
  \<open>swapExactTokensForTokens\<close> with this recipient.
\<close>

theorem recipient_resolution:
  assumes "recipientAddress s = r"
  shows "recipient r account = (if length r = 42 \<and> take 2 r = ''0x'' then r else account)
   \<and> (spec_validAddress r \<longrightarrow> recipient r account = r)
   \<and> (r = [] \<or> length r \<noteq> 42 \<or> take 2 r \<noteq> ''0x'' \<longrightarrow> recipient r account = account)
   \<and> list_all (\<lambda>sc. recipientOfCall sc = recipient r account)
         (callsSubmitted (handleSwap c s cid account rt now from to a))
   \<and> (wrappedAddressOf (tokens s) (wrappedSymbol (getChainConfig cid)) = ret w
        \<and> getAmountsOut c a (buildPath (address from) (address to) w) = Inr am \<and> am \<noteq> [] \<longrightarrow>
        (address from = zeroAddress \<longrightarrow>
           handleSwap c s cid account rt now from to a =
             after [GetAmountsOut a (buildPath (address from) (address to) w)]
               (swapAndWait c
                  (SwapExactETHForTokens (amountOutMin (last am) (slippage s))
                     (buildPath (address from) (address to) w) (recipient r account)
                     (now div 1000 + 60 * deadline s) a)))
        \<and> (address from \<noteq> zeroAddress \<longrightarrow>
           handleSwap c s cid account rt now from to a =
             after [GetAmountsOut a (buildPath (address from) (address to) w)]
               (bind (approveIfNeeded c (address from) account rt a) (\<lambda>_.
                  swapAndWait c
                    (if address to = zeroAddress
                     then SwapExactTokensForETH a (amountOutMin (last am) (slippage s))
                            (buildPath (address from) (address to) w) (recipient r account)
                            (now div 1000 + 60 * deadline s)
                     else SwapExactTokensForTokens a (amountOutMin (last am) (slippage s))
                            (buildPath (address from) (address to) w) (recipient r account)
                            (now div 1000 + 60 * deadline s))))))
   \<and> (\<forall>sc g h. swapEstimateGas c sc = Inr g \<and> swap c sc (g * 150 div 100) = Inr ()
          \<and> swapWait c = Inr h \<longrightarrow>
        swapAndWait c sc = ([SwapEstimateGas sc, Swap sc (g * 150 div 100), SwapWait], Inr h))
   \<and> list_all (\<lambda>sc. recipientOfCall sc = recipient r account)
         (callsSubmitted (handleSwap_submit c s account rt now from to a p quoted))"
proof -
  let ?p = "buildPath (address from) (address to) w"
  have subm: "list_all (\<lambda>sc. recipientOfCall sc = recipient r account)
         (callsSubmitted (handleSwap_submit c s account rt now from to a p quoted))"
    using calls_handleSwap_submit [of s account c rt now "from" to a p quoted] assms by simp
  have calls: "list_all (\<lambda>sc. recipientOfCall sc = recipient r account)
         (callsSubmitted (handleSwap c s cid account rt now from to a))"
    using calls_handleSwap [of s account c cid rt now "from" to a] assms by simp
  have nat: "handleSwap c s cid account rt now from to a =
             after [GetAmountsOut a ?p]
               (swapAndWait c
                  (SwapExactETHForTokens (amountOutMin (last am) (slippage s)) ?p (recipient r account)
                     (now div 1000 + 60 * deadline s) a))"
    if "wrappedAddressOf (tokens s) (wrappedSymbol (getChainConfig cid)) = ret w"
      "getAmountsOut c a ?p = Inr am" "am \<noteq> []" "address from = zeroAddress"
    using handleSwap_first_ok [OF that(1) refl that(2,3)] submit_native [OF that(4)] assms
    by (simp add: nativeSwapCall_def)
  have tok: "handleSwap c s cid account rt now from to a =
             after [GetAmountsOut a ?p]
               (bind (approveIfNeeded c (address from) account rt a) (\<lambda>_.
                  swapAndWait c
                    (if address to = zeroAddress
                     then SwapExactTokensForETH a (amountOutMin (last am) (slippage s)) ?p
                            (recipient r account) (now div 1000 + 60 * deadline s)
                     else SwapExactTokensForTokens a (amountOutMin (last am) (slippage s)) ?p
                            (recipient r account) (now div 1000 + 60 * deadline s))))"
    if "wrappedAddressOf (tokens s) (wrappedSymbol (getChainConfig cid)) = ret w"
      "getAmountsOut c a ?p = Inr am" "am \<noteq> []" "address from \<noteq> zeroAddress"
    using handleSwap_first_ok [OF that(1) refl that(2,3)] submit_token [OF that(4)] assms
    by (simp add: tokenSwapCall_def)
  have sw: "swapAndWait c sc = ([SwapEstimateGas sc, Swap sc (g * 150 div 100), SwapWait], Inr h)"
    if "swapEstimateGas c sc = Inr g" "swap c sc (g * 150 div 100) = Inr ()" "swapWait c = Inr h"
    for sc g h
    using that by (rule swapAndWait_ok)
  from recipient_cases [of r account] calls nat tok sw subm show ?thesis by blast
qed

lemma amountOutMin_half: "amountOutMin q (1 / 2) = (int q * 9950) div 10000"
  by (simp add: amountOutMin_def slippageFactor_half bigint_div_nonneg)

lemma achs_tkn_path:
  "buildPath (address achsToken) (address tknToken) (address wusdcToken) =
     [address achsToken, address wusdcToken, address tknToken]"
  by (simp add: buildPath_def token_defs zeroAddress_def Let_def)

theorem recipient_resolution_witness:
  "recipientAddress arcState = []
   \<and> wrappedAddressOf (tokens arcState) (wrappedSymbol (getChainConfig 5042002)) = ret (address wusdcToken)
   \<and> address usdcToken = zeroAddress
   \<and> handleSwap (chainWith wrappedPoolQuotes 0) arcState 5042002 walletAddress arcRouter 1700000000000
        usdcToken achsToken 100 =
       ([GetAmountsOut 100 [address wusdcToken, address achsToken],
         SwapEstimateGas (SwapExactETHForTokens 199 [address wusdcToken, address achsToken]
            walletAddress 1700001200 100),
         Swap (SwapExactETHForTokens 199 [address wusdcToken, address achsToken]
            walletAddress 1700001200 100) 150000,
         SwapWait], Inr ''0xb2'')
   \<and> spec_validAddress ''0xDe5DB9049a8dd344dC1B7Bbb098f9da60930A6dA''
   \<and> address achsToken \<noteq> zeroAddress
   \<and> handleSwap (chainWith curvedQuotes 100)
        (arcState\<lparr>recipientAddress := ''0xDe5DB9049a8dd344dC1B7Bbb098f9da60930A6dA''\<rparr>)
        5042002 walletAddress arcRouter 1700000000000 achsToken tknToken 100 =
       ([GetAmountsOut 100 [address achsToken, address wusdcToken, address tknToken],
         Allowance (address achsToken) walletAddress arcRouter,
         SwapEstimateGas (SwapExactTokensForTokens 100 89
            [address achsToken, address wusdcToken, address tknToken]
            ''0xDe5DB9049a8dd344dC1B7Bbb098f9da60930A6dA'' 1700001200),
         Swap (SwapExactTokensForTokens 100 89
            [address achsToken, address wusdcToken, address tknToken]
            ''0xDe5DB9049a8dd344dC1B7Bbb098f9da60930A6dA'' 1700001200) 150000,
         SwapWait], Inr ''0xb2'')"
proof -
  let ?c = "chainWith wrappedPoolQuotes 0"
  let ?d = "chainWith curvedQuotes 100"
  let ?r = "''0xDe5DB9049a8dd344dC1B7Bbb098f9da60930A6dA''"
  let ?s = "arcState\<lparr>recipientAddress := ?r\<rparr>"
  have r0: "recipientAddress arcState = []" by (simp add: arcState_def initialState_def)
  have w0: "wrappedAddressOf (tokens arcState) (wrappedSymbol (getChainConfig 5042002)) = ret (address wusdcToken)"
    by (simp add: tokens_arcState wrapped_arc)
  have w1: "wrappedAddressOf (tokens ?s) (wrappedSymbol (getChainConfig 5042002)) = ret (address wusdcToken)"
    by (simp add: tokens_arcState wrapped_arc)
  have nat: "address usdcToken = zeroAddress" by (simp add: usdcToken_def zeroAddress_def)
  have tok: "address achsToken \<noteq> zeroAddress" by (simp add: achsToken_def zeroAddress_def)
  have tkn: "address tknToken \<noteq> zeroAddress" by (simp add: tknToken_def zeroAddress_def)
  have valid: "spec_validAddress ?r" by (simp add: spec_validAddress_def isHexChar_def)
  have q0: "getAmountsOut ?c 100 (buildPath (address usdcToken) (address achsToken) (address wusdcToken)) = Inr [100, 200]
      \<and> [100, 200::nat] \<noteq> []"
    by (simp add: wusdc_achs_path chainWith_def wrappedPoolQuotes_def)
  have q1: "getAmountsOut ?d 100 (buildPath (address achsToken) (address tknToken) (address wusdcToken)) = Inr [100, 90]
      \<and> [100, 90::nat] \<noteq> []"
    by (simp add: chainWith_def curvedQuotes_def)
  have st: "slippage arcState = 1 / 2" "deadline arcState = 20" "slippage ?s = 1 / 2" "deadline ?s = 20"
    by (simp_all add: arcState_def initialState_def)
  have sw: "swapAndWait (chainWith qs n) sc = ([SwapEstimateGas sc, Swap sc 150000, SwapWait], Inr ''0xb2'')"
    for qs n sc
    by (simp add: swapAndWait_def sendSwap_def run_defs chainWith_def Let_def)
  have ap: "approveIfNeeded ?d (address achsToken) walletAddress arcRouter 100 =
      ([Allowance (address achsToken) walletAddress arcRouter], Inr ())"
    by (simp add: approveIfNeeded_def run_defs chainWith_def)
  note a = recipient_resolution [where s = arcState and r = "[]" and account = walletAddress
      and c = ?c and cid = 5042002 and rt = arcRouter and now = 1700000000000 and ?from = usdcToken
      and to = achsToken and a = 100 and w = "address wusdcToken" and am = "[100, 200]", OF r0]
  note a1 = a [THEN conjunct2, THEN conjunct2, THEN conjunct2, THEN conjunct2, THEN conjunct1,
      THEN mp, OF conjI [OF w0 q0], THEN conjunct1, THEN mp, OF nat]
  have e1: "recipient [] walletAddress = walletAddress"
    using a [THEN conjunct2, THEN conjunct2, THEN conjunct1] by simp
  have h1: "handleSwap ?c arcState 5042002 walletAddress arcRouter 1700000000000 usdcToken achsToken 100 =
       ([GetAmountsOut 100 [address wusdcToken, address achsToken],
         SwapEstimateGas (SwapExactETHForTokens 199 [address wusdcToken, address achsToken]
            walletAddress 1700001200 100),
         Swap (SwapExactETHForTokens 199 [address wusdcToken, address achsToken]
            walletAddress 1700001200 100) 150000,
         SwapWait], Inr ''0xb2'')"
    unfolding a1 wusdc_achs_path e1 st sw
    by (simp add: after_def amountOutMin_half)
  note b = recipient_resolution [where s = ?s and r = ?r and account = walletAddress
      and c = ?d and cid = 5042002 and rt = arcRouter and now = 1700000000000 and ?from = achsToken
      and to = tknToken and a = 100 and w = "address wusdcToken" and am = "[100, 90]"]
  have rs: "recipientAddress ?s = ?r" by simp
  note b1 = b [OF rs, THEN conjunct2, THEN conjunct2, THEN conjunct2, THEN conjunct2, THEN conjunct1,
      THEN mp, OF conjI [OF w1 q1], THEN conjunct2, THEN mp, OF tok]
  have e2: "recipient ?r walletAddress = ?r"
    using b [OF rs, THEN conjunct2, THEN conjunct1] valid by simp
  have h2: "handleSwap ?d ?s 5042002 walletAddress arcRouter 1700000000000 achsToken tknToken 100 =
       ([GetAmountsOut 100 [address achsToken, address wusdcToken, address tknToken],
         Allowance (address achsToken) walletAddress arcRouter,
         SwapEstimateGas (SwapExactTokensForTokens 100 89
            [address achsToken, address wusdcToken, address tknToken] ?r 1700001200),
         Swap (SwapExactTokensForTokens 100 89
            [address achsToken, address wusdcToken, address tknToken] ?r 1700001200) 150000,
         SwapWait], Inr ''0xb2'')"
    unfolding b1 achs_tkn_path e2 st sw ap
    using tkn by (simp add: after_def bind_def amountOutMin_half)
  from r0 w0 nat h1 valid tok h2 show ?thesis by blast
qed

section \<open>Approval before a swap, and the unwrap pair\<close>













end
